theory Spec2Isabelle
  imports Complex_Main "HOL-Library.Char_ord" "HOL-Library.List_Lexorder" "HOL-Library.AList"
    "HOL-Library.Multiset"
begin

section \<open>Parsed JSON values\<close>

text \<open>
  The value \<open>JSON.parse\<close> returns. A number is the exact value of the (finite) double;
  an object is its list of own properties in insertion order, looked up with \<open>map_of\<close>.
  \<open>JSON.parse\<close> itself is a built-in of the platform: the tools below take it as the
  parameter \<open>jsonParse\<close>, returning \<open>Inl\<close> the SyntaxError message or \<open>Inr\<close> the value.
\<close>

datatype json =
    JNull
  | JBool bool
  | JNum rat
  | JStr string
  | JArr "json list"
  | JObj "(string \<times> json) list"

type_synonym json_parser = "string \<Rightarrow> string + json"

section \<open>The schema combinators used by canvas-schema.ts\<close>

text \<open>
  A schema maps the path of the value being checked and the value (\<open>None\<close> is
  JavaScript's \<open>undefined\<close>, what reading an absent property gives) to the list of the
  issues it raises; the empty list is acceptance. An issue has the path of the value it
  was raised on, a code and a message. The message is the library's default text for
  the code (\<open>DefaultMsg\<close>) unless the schema declares one of its own. The code of an
  unknown-key issue carries the offending keys, as the library's \<open>keys\<close> field does.
\<close>

datatype seg = Key string | Idx nat

datatype zcode =
    invalid_type
  | too_small
  | invalid_string
  | invalid_enum_value
  | invalid_literal
  | invalid_union
  | invalid_union_discriminator
  | unrecognized_keys "string list"

datatype zmsg = DefaultMsg | CustomMsg string

datatype issue = Issue (ipath: "seg list") (icode: zcode) (imsg: zmsg)

type_synonym zschema = "seg list \<Rightarrow> json option \<Rightarrow> issue list"
type_synonym 'a zcheck = "seg list \<Rightarrow> 'a \<Rightarrow> issue list"

text \<open>
  The parser of a schema also returns a status: valid, dirty (the value has the right
  type and a check on it failed) or aborted (the value has the wrong type or is not one
  of the values allowed). Only a union looks at the status of its options, and the
  options of the one union of canvas-schema.ts are a string schema and an enumeration;
  so the schemas of primitive values are defined with their status, and the issues of
  a schema are the second component.
\<close>

datatype zstatus = Valid | Dirty | Aborted

type_synonym zparser = "seg list \<Rightarrow> json option \<Rightarrow> zstatus \<times> issue list"

definition checked :: "issue list \<Rightarrow> zstatus \<times> issue list" where
  "checked issues = (if issues = [] then Valid else Dirty, issues)"

definition z_min :: "nat \<Rightarrow> string zcheck" where
  "z_min n p s = (if length s < n then [Issue p too_small DefaultMsg] else [])"

definition z_regex :: "(string \<Rightarrow> bool) \<Rightarrow> string \<Rightarrow> string zcheck" where
  "z_regex matches msg p s = (if matches s then [] else [Issue p invalid_string (CustomMsg msg)])"

definition z_startsWith :: "string \<Rightarrow> string zcheck" where
  "z_startsWith pre p s =
     (if take (length pre) s = pre then [] else [Issue p invalid_string DefaultMsg])"

definition z_url :: "(string \<Rightarrow> bool) \<Rightarrow> string zcheck" where
  "z_url isUrl p s = (if isUrl s then [] else [Issue p invalid_string DefaultMsg])"

definition z_string_parse :: "string zcheck list \<Rightarrow> zparser" where
  "z_string_parse checks p v =
     (case v of
        Some (JStr s) \<Rightarrow> checked (concat (map (\<lambda>c. c p s) checks))
      | _ \<Rightarrow> (Aborted, [Issue p invalid_type DefaultMsg]))"

definition z_string :: "string zcheck list \<Rightarrow> zschema" where
  "z_string checks p v = snd (z_string_parse checks p v)"

definition isInteger :: "rat \<Rightarrow> bool" where
  "isInteger q = (rat_of_int \<lfloor>q\<rfloor> = q)"

definition z_int :: "rat zcheck" where
  "z_int p q = (if isInteger q then [] else [Issue p invalid_type DefaultMsg])"

definition z_positive :: "rat zcheck" where
  "z_positive p q = (if q \<le> 0 then [Issue p too_small DefaultMsg] else [])"

definition z_number_parse :: "rat zcheck list \<Rightarrow> zparser" where
  "z_number_parse checks p v =
     (case v of
        Some (JNum q) \<Rightarrow> checked (concat (map (\<lambda>c. c p q) checks))
      | _ \<Rightarrow> (Aborted, [Issue p invalid_type DefaultMsg]))"

definition z_number :: "rat zcheck list \<Rightarrow> zschema" where
  "z_number checks p v = snd (z_number_parse checks p v)"

definition z_enum_parse :: "string list \<Rightarrow> zparser" where
  "z_enum_parse vals p v =
     (case v of
        Some (JStr s) \<Rightarrow>
          if s \<in> set vals then (Valid, [])
          else (Aborted, [Issue p invalid_enum_value DefaultMsg])
      | _ \<Rightarrow> (Aborted, [Issue p invalid_type DefaultMsg]))"

definition z_enum :: "string list \<Rightarrow> zschema" where
  "z_enum vals p v = snd (z_enum_parse vals p v)"

definition z_literal_parse :: "string \<Rightarrow> zparser" where
  "z_literal_parse lit p v =
     (if v = Some (JStr lit) then (Valid, [])
      else (Aborted, [Issue p invalid_literal DefaultMsg]))"

definition z_literal :: "string \<Rightarrow> zschema" where
  "z_literal lit p v = snd (z_literal_parse lit p v)"

text \<open>
  \<open>z.union(options)\<close>: every option parses the value. A valid option makes the union
  valid. Otherwise the first dirty option gives the union its issues. When every option
  has aborted, the union raises the one issue \<open>invalid_union\<close>.
\<close>

definition z_union :: "zparser list \<Rightarrow> zschema" where
  "z_union options p v =
     (let results = map (\<lambda>option. option p v) options
      in if list_ex (\<lambda>r. fst r = Valid) results then []
         else (case find (\<lambda>r. fst r = Dirty) results of
                 Some dirty \<Rightarrow> snd dirty
               | None \<Rightarrow> [Issue p invalid_union DefaultMsg]))"

definition z_optional :: "zschema \<Rightarrow> zschema" where
  "z_optional s p v = (case v of None \<Rightarrow> [] | Some x \<Rightarrow> s p (Some x))"

definition z_array :: "zschema \<Rightarrow> zschema" where
  "z_array el p v =
     (case v of
        Some (JArr xs) \<Rightarrow> concat (map (\<lambda>(i, x). el (p @ [Idx i]) (Some x)) (enumerate 0 xs))
      | _ \<Rightarrow> [Issue p invalid_type DefaultMsg])"

text \<open>
  \<open>z.object(shape).strict(msg)\<close>: every key of the shape is checked on the property of
  that name, then the properties whose key is not in the shape are reported in one
  issue, raised at the path of the object itself.
\<close>

definition z_object_strict :: "(string \<times> zschema) list \<Rightarrow> zmsg \<Rightarrow> zschema" where
  "z_object_strict shape msg p v =
     (case v of
        Some (JObj kvs) \<Rightarrow>
          concat (map (\<lambda>(k, s). s (p @ [Key k]) (map_of kvs k)) shape) @
          (let extraKeys = filter (\<lambda>k. k \<notin> set (map fst shape)) (map fst kvs)
           in if extraKeys = [] then [] else [Issue p (unrecognized_keys extraKeys) msg])
      | _ \<Rightarrow> [Issue p invalid_type DefaultMsg])"

text \<open>\<open>base.extend(aug)\<close> is the spread \<open>{...base, ...aug}\<close> of the two shapes.\<close>

definition z_extend :: "(string \<times> zschema) list \<Rightarrow> (string \<times> zschema) list \<Rightarrow> (string \<times> zschema) list" where
  "z_extend base aug =
     map (\<lambda>(k, s). (k, case map_of aug k of Some s' \<Rightarrow> s' | None \<Rightarrow> s)) base @
     filter (\<lambda>(k, s). k \<notin> set (map fst base)) aug"

text \<open>
  \<open>z.discriminatedUnion(disc, options)\<close>: the option is chosen by the value of the
  discriminator property; a value that selects none is reported at the discriminator.
\<close>

definition z_discriminatedUnion :: "string \<Rightarrow> (string \<times> zschema) list \<Rightarrow> zschema" where
  "z_discriminatedUnion disc options p v =
     (case v of
        Some (JObj kvs) \<Rightarrow>
          (case map_of kvs disc of
             Some (JStr t) \<Rightarrow>
               (case map_of options t of
                  Some s \<Rightarrow> s p v
                | None \<Rightarrow> [Issue (p @ [Key disc]) invalid_union_discriminator DefaultMsg])
           | _ \<Rightarrow> [Issue (p @ [Key disc]) invalid_union_discriminator DefaultMsg])
      | _ \<Rightarrow> [Issue p invalid_type DefaultMsg])"

section \<open>canvas-schema.ts\<close>

definition isHexDigit :: "char \<Rightarrow> bool" where
  "isHexDigit c =
     ((CHR ''0'' \<le> c \<and> c \<le> CHR ''9'') \<or> (CHR ''A'' \<le> c \<and> c \<le> CHR ''F'') \<or>
      (CHR ''a'' \<le> c \<and> c \<le> CHR ''f''))"

text \<open>The regular expression \<open>/^#[0-9A-Fa-f]{6}$/\<close>.\<close>

definition hexColorRegex :: "string \<Rightarrow> bool" where
  "hexColorRegex s =
     (case s of [] \<Rightarrow> False | c # ds \<Rightarrow> c = CHR ''#'' \<and> length ds = 6 \<and> list_all isHexDigit ds)"

definition canvasColorSchema :: zschema where
  "canvasColorSchema =
     z_union [z_enum_parse [''1'', ''2'', ''3'', ''4'', ''5'', ''6''],
              z_string_parse
                [z_regex hexColorRegex ''Must be a 6-digit hex color code starting with #'']]"

definition genericNodeShape :: "(string \<times> zschema) list" where
  "genericNodeShape =
     [(''id'', z_string [z_min 1]),
      (''x'', z_number [z_int]),
      (''y'', z_number [z_int]),
      (''width'', z_number [z_int, z_positive]),
      (''height'', z_number [z_int, z_positive]),
      (''color'', z_optional canvasColorSchema)]"

definition textNodeShape :: "(string \<times> zschema) list" where
  "textNodeShape = z_extend genericNodeShape
     [(''type'', z_literal ''text''),
      (''text'', z_string [])]"

definition fileNodeShape :: "(string \<times> zschema) list" where
  "fileNodeShape = z_extend genericNodeShape
     [(''type'', z_literal ''file''),
      (''file'', z_string [z_min 1]),
      (''subpath'', z_optional (z_string [z_startsWith ''#'']))]"

definition linkNodeShape :: "(string \<Rightarrow> bool) \<Rightarrow> (string \<times> zschema) list" where
  "linkNodeShape isUrl = z_extend genericNodeShape
     [(''type'', z_literal ''link''),
      (''url'', z_string [z_url isUrl])]"

definition groupNodeShape :: "(string \<times> zschema) list" where
  "groupNodeShape = z_extend genericNodeShape
     [(''type'', z_literal ''group''),
      (''label'', z_optional (z_string [])),
      (''background'', z_optional (z_string [])),
      (''backgroundStyle'', z_optional (z_enum [''cover'', ''ratio'', ''repeat'']))]"

text \<open>
  The shape of the node variant a discriminator value selects; \<open>isUrl s\<close> says whether
  \<open>new URL(s)\<close> succeeds (the test behind \<open>z.string().url()\<close>).
\<close>

definition nodeOptions :: "(string \<Rightarrow> bool) \<Rightarrow> (string \<times> (string \<times> zschema) list) list" where
  "nodeOptions isUrl =
     [(''text'', textNodeShape),
      (''file'', fileNodeShape),
      (''link'', linkNodeShape isUrl),
      (''group'', groupNodeShape)]"

definition nodeSchema :: "(string \<Rightarrow> bool) \<Rightarrow> zschema" where
  "nodeSchema isUrl =
     z_discriminatedUnion ''type''
       (map (\<lambda>(t, shape). (t, z_object_strict shape DefaultMsg)) (nodeOptions isUrl))"

definition edgeShape :: "(string \<times> zschema) list" where
  "edgeShape =
     [(''id'', z_string [z_min 1]),
      (''fromNode'', z_string [z_min 1]),
      (''fromSide'', z_optional (z_enum [''top'', ''right'', ''bottom'', ''left''])),
      (''fromEnd'', z_optional (z_enum [''none'', ''arrow''])),
      (''toNode'', z_string [z_min 1]),
      (''toSide'', z_optional (z_enum [''top'', ''right'', ''bottom'', ''left''])),
      (''toEnd'', z_optional (z_enum [''none'', ''arrow''])),
      (''color'', z_optional canvasColorSchema),
      (''label'', z_optional (z_string []))]"

definition edgeSchema :: zschema where
  "edgeSchema = z_object_strict edgeShape DefaultMsg"

definition canvasShape :: "(string \<Rightarrow> bool) \<Rightarrow> (string \<times> zschema) list" where
  "canvasShape isUrl =
     [(''nodes'', z_optional (z_array (nodeSchema isUrl))),
      (''edges'', z_optional (z_array edgeSchema))]"

definition canvasSchema :: "(string \<Rightarrow> bool) \<Rightarrow> zschema" where
  "canvasSchema isUrl =
     z_object_strict (canvasShape isUrl)
       (CustomMsg ''Canvas object must only contain 'nodes' and 'edges' properties'')"

text \<open>
  The two entry points of a schema: \<open>safeParse(v).success\<close>, and \<open>parse(v)\<close>, which
  throws the ZodError holding the issues.
\<close>

definition safeParse_success :: "zschema \<Rightarrow> json \<Rightarrow> bool" where
  "safeParse_success schema v = (schema [] (Some v) = [])"

definition zparse :: "zschema \<Rightarrow> json \<Rightarrow> issue list + json" where
  "zparse schema v = (case schema [] (Some v) of [] \<Rightarrow> Inr v | i # is \<Rightarrow> Inl (i # is))"

section \<open>The canvas data model of the specification (section 3)\<close>

























section \<open>Errors\<close>

text \<open>
  \<open>McpError\<close> is the protocol's typed error, \<open>FsError\<close> a plain exception thrown by a
  file-system call (any error that is not \<open>instanceof McpError\<close>). The kinds are those
  of section 7 of the specification.
\<close>

datatype errkind = InvalidParams | NotFound | AlreadyExists | PathEscape | FsFailure | InternalError

datatype error = McpError errkind string | FsError string

definition isMcpError :: "error \<Rightarrow> bool" where
  "isMcpError e = (case e of McpError k m \<Rightarrow> True | FsError m \<Rightarrow> False)"

text \<open>
  Modelled from the spec: the error constructors of utils/errors.js are not part of the
  sources. Section 7 gives each its kind: \<open>NotFound\<close> and \<open>AlreadyExists\<close> name the
  resource, a JSON syntax error is \<open>InvalidParams\<close>, and a storage error is wrapped
  "with operation context" as \<open>FsFailure\<close> (\<open>handleFsError\<close>, defined below with the
  messages of errors). The message texts are not specified; the model keeps the
  arguments.
\<close>

definition createCanvasNotFoundError :: "string \<Rightarrow> error" where
  "createCanvasNotFoundError name = McpError NotFound name"

definition createNoteNotFoundError :: "string \<Rightarrow> error" where
  "createNoteNotFoundError name = McpError NotFound name"

definition createCanvasExistsError :: "string \<Rightarrow> error" where
  "createCanvasExistsError p = McpError AlreadyExists p"

definition createInvalidJsonError :: "string \<Rightarrow> string \<Rightarrow> error" where
  "createInvalidJsonError name msg = McpError InvalidParams (name @ '': '' @ msg)"

section \<open>The file system and its failures\<close>

text \<open>
  The world a call runs in: the regular files with their contents, the directories
  made so far, the outcomes the coming file-system calls will have (\<open>faults w n\<close> is
  the outcome of the \<open>n\<close>-th call from now that can fail; each such call takes the
  next one), and the trace of the calls and of the lines written with
  \<open>console.error\<close>. \<open>FailPartial m c\<close> is a write or copy
  that throws after it has left content \<open>c\<close> in its destination (a truncated or
  partial file); on the other calls it is a plain failure.
\<close>

type_synonym fpath = string

datatype outcome = Ok | Fail string | FailPartial string string

datatype event =
    EvExists fpath
  | EvCopyFile fpath fpath
  | EvWriteFile fpath string
  | EvReadFile fpath
  | EvUnlink fpath
  | EvRename fpath fpath
  | EvMkdir fpath
  | EvConsoleError string
  | EvConsoleErrorWith string error
  | EvSetTimeoutUnlink nat fpath

record world =
  files :: "fpath \<rightharpoonup> string"
  dirs :: "fpath set"
  faults :: "nat \<Rightarrow> outcome"
  trace :: "event list"

type_synonym 'a io = "world \<Rightarrow> (error + 'a) \<times> world"

definition io_return :: "'a \<Rightarrow> 'a io" where
  "io_return x w = (Inr x, w)"

definition io_throw :: "error \<Rightarrow> 'a io" where
  "io_throw e w = (Inl e, w)"

definition io_bind :: "'a io \<Rightarrow> ('a \<Rightarrow> 'b io) \<Rightarrow> 'b io" where
  "io_bind m f w = (case m w of (Inl e, w') \<Rightarrow> (Inl e, w') | (Inr x, w') \<Rightarrow> f x w')"

text \<open>\<open>try { body } catch (e) { handler }\<close>\<close>

definition io_catch :: "'a io \<Rightarrow> (error \<Rightarrow> 'a io) \<Rightarrow> 'a io" where
  "io_catch body handler w =
     (case body w of (Inl e, w') \<Rightarrow> handler e w' | (Inr x, w') \<Rightarrow> (Inr x, w'))"

definition io_when :: "bool \<Rightarrow> unit io \<Rightarrow> unit io" where
  "io_when b m = (if b then m else io_return ())"

definition record_event :: "event \<Rightarrow> world \<Rightarrow> world" where
  "record_event ev w = w\<lparr>trace := trace w @ [ev]\<rparr>"

definition next_outcome :: "world \<Rightarrow> outcome \<times> world" where
  "next_outcome w = (faults w 0, w\<lparr>faults := (\<lambda>n. faults w (Suc n))\<rparr>)"

definition console_error :: "string \<Rightarrow> unit io" where
  "console_error line w = (Inr (), record_event (EvConsoleError line) w)"

text \<open>\<open>console.error(text, err)\<close>: the text and the error object that is printed after it.\<close>

definition console_error_with :: "string \<Rightarrow> error \<Rightarrow> unit io" where
  "console_error_with line err w = (Inr (), record_event (EvConsoleErrorWith line err) w)"

text \<open>The outcomes listed, then success for ever.\<close>

definition schedule :: "outcome list \<Rightarrow> nat \<Rightarrow> outcome" where
  "schedule outcomes n = (if n < length outcomes then outcomes ! n else Ok)"

definition fs_copyFile :: "fpath \<Rightarrow> fpath \<Rightarrow> unit io" where
  "fs_copyFile src dst w =
     (case next_outcome (record_event (EvCopyFile src dst) w) of
        (Ok, w1) \<Rightarrow>
          (case files w1 src of
             None \<Rightarrow> (Inl (FsError ''ENOENT''), w1)
           | Some c \<Rightarrow> (Inr (), w1\<lparr>files := (files w1)(dst \<mapsto> c)\<rparr>))
      | (Fail m, w1) \<Rightarrow> (Inl (FsError m), w1)
      | (FailPartial m c, w1) \<Rightarrow> (Inl (FsError m), w1\<lparr>files := (files w1)(dst \<mapsto> c)\<rparr>))"

definition fs_writeFile :: "fpath \<Rightarrow> string \<Rightarrow> unit io" where
  "fs_writeFile p content w =
     (case next_outcome (record_event (EvWriteFile p content) w) of
        (Ok, w1) \<Rightarrow> (Inr (), w1\<lparr>files := (files w1)(p \<mapsto> content)\<rparr>)
      | (Fail m, w1) \<Rightarrow> (Inl (FsError m), w1)
      | (FailPartial m c, w1) \<Rightarrow> (Inl (FsError m), w1\<lparr>files := (files w1)(p \<mapsto> c)\<rparr>))"

definition fs_readFile :: "fpath \<Rightarrow> string io" where
  "fs_readFile p w =
     (case next_outcome (record_event (EvReadFile p) w) of
        (Ok, w1) \<Rightarrow>
          (case files w1 p of
             None \<Rightarrow> (Inl (FsError ''ENOENT''), w1)
           | Some c \<Rightarrow> (Inr c, w1))
      | (Fail m, w1) \<Rightarrow> (Inl (FsError m), w1)
      | (FailPartial m c, w1) \<Rightarrow> (Inl (FsError m), w1))"

definition fs_unlink :: "fpath \<Rightarrow> unit io" where
  "fs_unlink p w =
     (case next_outcome (record_event (EvUnlink p) w) of
        (Ok, w1) \<Rightarrow>
          (case files w1 p of
             None \<Rightarrow> (Inl (FsError ''ENOENT''), w1)
           | Some c \<Rightarrow> (Inr (), w1\<lparr>files := (files w1)(p := None)\<rparr>))
      | (Fail m, w1) \<Rightarrow> (Inl (FsError m), w1)
      | (FailPartial m c, w1) \<Rightarrow> (Inl (FsError m), w1))"

text \<open>\<open>fs.rename\<close> replaces a file already at the destination.\<close>

definition fs_rename :: "fpath \<Rightarrow> fpath \<Rightarrow> unit io" where
  "fs_rename src dst w =
     (case next_outcome (record_event (EvRename src dst) w) of
        (Ok, w1) \<Rightarrow>
          (case files w1 src of
             None \<Rightarrow> (Inl (FsError ''ENOENT''), w1)
           | Some c \<Rightarrow> (Inr (), w1\<lparr>files := ((files w1)(src := None))(dst \<mapsto> c)\<rparr>))
      | (Fail m, w1) \<Rightarrow> (Inl (FsError m), w1)
      | (FailPartial m c, w1) \<Rightarrow> (Inl (FsError m), w1))"

text \<open>
  Modelled from the spec: \<open>fileExists\<close> and \<open>ensureDirectory\<close> of utils/files.js are not
  part of the sources. The first answers whether the target "is already present" and
  never throws; the second makes sure the directory exists ("ensure a vault-local trash
  directory exists"), creating it when needed, and throws on a storage error.
\<close>

definition fileExists :: "fpath \<Rightarrow> bool io" where
  "fileExists p w = (Inr (files w p \<noteq> None), record_event (EvExists p) w)"

definition ensureDirectory :: "fpath \<Rightarrow> unit io" where
  "ensureDirectory p w =
     (case next_outcome (record_event (EvMkdir p) w) of
        (Ok, w1) \<Rightarrow> (Inr (), w1\<lparr>dirs := insert p (dirs w1)\<rparr>)
      | (Fail m, w1) \<Rightarrow> (Inl (FsError m), w1)
      | (FailPartial m c, w1) \<Rightarrow> (Inl (FsError m), w1))"

section \<open>What the tools call and the sources do not define\<close>

text \<open>
  Built-ins of the platform and of the schema library, and helpers of utils/ whose code
  is not part of the sources, are parameters of the model: every theorem holds whatever
  they compute.
\<close>

record op_result =
  r_success :: bool
  r_message :: string
  r_path :: fpath
  r_operation :: string

record deps =
  jsonParse :: json_parser
  jsonStringify2 :: "json \<Rightarrow> string"
  isUrl :: "string \<Rightarrow> bool"
  zodMessage :: "zcode \<Rightarrow> string"
  toLowerCase :: "string \<Rightarrow> string"
  trim :: "string \<Rightarrow> string"
  pathJoin :: "string list \<Rightarrow> fpath"
  pathDirname :: "fpath \<Rightarrow> fpath"
  pathBasename :: "fpath \<Rightarrow> string \<Rightarrow> string"
  pathRelative :: "fpath \<Rightarrow> fpath \<Rightarrow> fpath"
  ensureCanvasExtension :: "string \<Rightarrow> string"
  ensureMarkdownExtension :: "string \<Rightarrow> string"
  validateVaultPath :: "fpath \<Rightarrow> fpath \<Rightarrow> error option"
  formatFileResult :: "op_result \<Rightarrow> string"
  extractTags :: "string \<Rightarrow> string list"
  normalizeTag :: "string \<Rightarrow> string"
  matchesTagPattern :: "string \<Rightarrow> string \<Rightarrow> bool"
  normalizePath :: "fpath \<Rightarrow> fpath"
  safeJoinPath :: "fpath \<Rightarrow> string \<Rightarrow> error + fpath"
  getAllMarkdownFiles :: "fpath \<Rightarrow> fpath \<Rightarrow> fpath list io"
  errorCode :: "errkind \<Rightarrow> int"

fun decimal :: "nat \<Rightarrow> string" where
  "decimal n =
     (if n < 10 then [''0123456789'' ! n]
      else decimal (n div 10) @ [''0123456789'' ! (n mod 10)])"

text \<open>\<open>`${code}`\<close> for the number of an error code\<close>

definition intString :: "int \<Rightarrow> string" where
  "intString i = (if i < 0 then ''-'' @ decimal (nat (- i)) else decimal (nat i))"

text \<open>
  \<open>error.message\<close>. The constructor of the SDK's \<open>McpError\<close> sets the message of the
  error to \<open>`MCP error ${code}: ${message}`\<close>; \<open>errorCode\<close> is the number the SDK's
  \<open>ErrorCode\<close> (for the kinds the tools raise themselves) and utils/errors.js (for the
  others) give a kind. A file-system error has the message of the platform.
\<close>

definition errorMessage :: "deps \<Rightarrow> error \<Rightarrow> string" where
  "errorMessage d e =
     (case e of
        McpError k m \<Rightarrow> ''MCP error '' @ intString (errorCode d k) @ '': '' @ m
      | FsError m \<Rightarrow> m)"

text \<open>
  \<open>String(error)\<close>, also what a template literal makes of an error: the name of the
  error's class, then its message.
\<close>

definition errorString :: "deps \<Rightarrow> error \<Rightarrow> string" where
  "errorString d e =
     (case e of
        McpError k m \<Rightarrow> ''McpError: '' @ errorMessage d e
      | FsError m \<Rightarrow> ''Error: '' @ m)"

text \<open>
  Modelled from the spec: \<open>handleFsError\<close> of utils/errors.js wraps a storage error "with
  operation context" as \<open>FsFailure\<close>.
\<close>

definition handleFsError :: "deps \<Rightarrow> error \<Rightarrow> string \<Rightarrow> error" where
  "handleFsError d e operation = McpError FsFailure (operation @ '': '' @ errorMessage d e)"

text \<open>A JavaScript condition on an optional string: \<open>undefined\<close> and \<open>""\<close> are falsy.\<close>

definition truthy :: "string option \<Rightarrow> bool" where
  "truthy s = (case s of None \<Rightarrow> False | Some x \<Rightarrow> x \<noteq> [])"

definition resolvePath :: "deps \<Rightarrow> fpath \<Rightarrow> string option \<Rightarrow> string \<Rightarrow> fpath" where
  "resolvePath d vaultPath folder name =
     (if truthy folder then pathJoin d [vaultPath, the folder, name]
      else pathJoin d [vaultPath, name])"

definition checkVaultPath :: "deps \<Rightarrow> fpath \<Rightarrow> fpath \<Rightarrow> unit io" where
  "checkVaultPath d vaultPath p =
     (case validateVaultPath d vaultPath p of None \<Rightarrow> io_return () | Some e \<Rightarrow> io_throw e)"

section \<open>Validation of a canvas payload (create-canvas and edit-canvas)\<close>

fun joinWith :: "string \<Rightarrow> string list \<Rightarrow> string" where
  "joinWith sep [] = []"
| "joinWith sep [x] = x"
| "joinWith sep (x # y # ys) = x @ sep @ joinWith sep (y # ys)"

definition segString :: "seg \<Rightarrow> string" where
  "segString g = (case g of Key k \<Rightarrow> k | Idx i \<Rightarrow> decimal i)"

definition issueMessage :: "deps \<Rightarrow> issue \<Rightarrow> string" where
  "issueMessage d i = (case imsg i of CustomMsg m \<Rightarrow> m | DefaultMsg \<Rightarrow> zodMessage d (icode i))"

text \<open>\<open>error.errors.map(e => `${e.path.join('.')}: ${e.message}`).join(', ')\<close>\<close>

definition formatIssues :: "deps \<Rightarrow> issue list \<Rightarrow> string" where
  "formatIssues d issues =
     joinWith '', '' (map (\<lambda>e. joinWith ''.'' (map segString (ipath e)) @ '': '' @ issueMessage d e) issues)"

text \<open>
  The refinement on \<open>content\<close> in the input schema of both tools: \<open>JSON.parse\<close>, then
  \<open>canvasSchema.safeParse(parsed).success\<close>; \<open>false\<close> when \<open>JSON.parse\<close> throws.
\<close>

definition contentRefine :: "deps \<Rightarrow> string \<Rightarrow> bool" where
  "contentRefine d content =
     (case jsonParse d content of
        Inl syntaxError \<Rightarrow> False
      | Inr parsed \<Rightarrow> safeParse_success (canvasSchema (isUrl d)) parsed)"

text \<open>
  The check in the handlers (the same block in createCanvas and editCanvas):
  \<open>JSON.parse\<close>, then \<open>canvasSchema.parse\<close>; a ZodError becomes an \<open>InvalidParams\<close>
  error listing the issues, a syntax error the invalid-JSON error.
\<close>

definition validateContent :: "deps \<Rightarrow> string \<Rightarrow> string \<Rightarrow> error + json" where
  "validateContent d sanitizedFilename content =
     (case jsonParse d content of
        Inl syntaxError \<Rightarrow> Inl (createInvalidJsonError sanitizedFilename syntaxError)
      | Inr parsedContent \<Rightarrow>
          (case zparse (canvasSchema (isUrl d)) parsedContent of
             Inl issues \<Rightarrow>
               Inl (McpError InvalidParams
                      (''Invalid canvas JSON structure: '' @ formatIssues d issues))
           | Inr v \<Rightarrow> Inr parsedContent))"

definition io_of :: "error + 'a \<Rightarrow> 'a io" where
  "io_of r = (case r of Inl e \<Rightarrow> io_throw e | Inr x \<Rightarrow> io_return x)"

section \<open>create-canvas\<close>

record create_args =
  ca_filename :: string
  ca_content :: string
  ca_folder :: "string option"

definition createCanvas :: "deps \<Rightarrow> create_args \<Rightarrow> fpath \<Rightarrow> op_result io" where
  "createCanvas d args vaultPath =
     (let sanitizedFilename = ensureCanvasExtension d (ca_filename args);
          canvasPath = resolvePath d vaultPath (ca_folder args) sanitizedFilename
      in io_bind (checkVaultPath d vaultPath canvasPath) (\<lambda>_.
         io_catch
           (io_bind (io_of (validateContent d sanitizedFilename (ca_content args))) (\<lambda>parsedContent.
            io_bind (ensureDirectory (pathDirname d canvasPath)) (\<lambda>_.
            io_bind (fileExists canvasPath) (\<lambda>present.
            if present then io_throw (createCanvasExistsError canvasPath)
            else
              io_bind (fs_writeFile canvasPath (ca_content args)) (\<lambda>_.
              io_return \<lparr>r_success = True, r_message = ''Canvas created successfully'',
                          r_path = canvasPath, r_operation = ''create''\<rparr>)))))
           (\<lambda>error.
              if isMcpError error then io_throw error
              else io_throw (handleFsError d error ''create canvas''))))"

section \<open>read-canvas\<close>

definition readCanvas :: "deps \<Rightarrow> fpath \<Rightarrow> string \<Rightarrow> string option \<Rightarrow> (op_result \<times> json) io" where
  "readCanvas d vaultPath filename folder =
     (let sanitizedFilename = ensureCanvasExtension d filename;
          fullPath = resolvePath d vaultPath folder sanitizedFilename
      in io_bind (checkVaultPath d vaultPath fullPath) (\<lambda>_.
         io_catch
           (io_bind (fileExists fullPath) (\<lambda>present.
            if \<not> present then io_throw (createCanvasNotFoundError filename)
            else
              io_bind (fs_readFile fullPath) (\<lambda>rawContent.
              case jsonParse d rawContent of
                Inl parseError \<Rightarrow> io_throw (createInvalidJsonError filename parseError)
              | Inr parsedContent \<Rightarrow>
                  io_return (\<lparr>r_success = True, r_message = ''Canvas read and parsed successfully'',
                               r_path = fullPath, r_operation = ''edit''\<rparr>, parsedContent))))
           (\<lambda>error.
              if isMcpError error then io_throw error
              else io_throw (handleFsError d error ''read canvas''))))"

text \<open>
  The handler of the read-canvas tool: the response is the formatted status, a heading
  and \<open>JSON.stringify(result.content, null, 2)\<close>.
\<close>

definition readCanvasTool :: "deps \<Rightarrow> fpath \<Rightarrow> string \<Rightarrow> string option \<Rightarrow> string io" where
  "readCanvasTool d vaultPath filename folder =
     io_bind (readCanvas d vaultPath filename folder) (\<lambda>(result, content).
     io_return (formatFileResult d result @ [CHR 0x0A, CHR 0x0A] @ ''Canvas Content:'' @ [CHR 0x0A] @
                jsonStringify2 d content))"

section \<open>edit-canvas\<close>

text \<open>\<open>`${fullPath}.${timestamp}.backup`\<close>, with \<open>timestamp = Date.now()\<close>\<close>

definition backupPathOf :: "fpath \<Rightarrow> nat \<Rightarrow> fpath" where
  "backupPathOf fullPath timestamp = fullPath @ ''.'' @ decimal timestamp @ ''.backup''"

definition editCanvas :: "deps \<Rightarrow> fpath \<Rightarrow> string \<Rightarrow> string \<Rightarrow> string option \<Rightarrow> nat \<Rightarrow> op_result io" where
  "editCanvas d vaultPath filename content folder timestamp =
     (let sanitizedFilename = ensureCanvasExtension d filename;
          fullPath = resolvePath d vaultPath folder sanitizedFilename
      in io_bind (checkVaultPath d vaultPath fullPath) (\<lambda>_.
         let backupPath = backupPathOf fullPath timestamp
         in io_catch
           (io_bind (fileExists fullPath) (\<lambda>present.
            if \<not> present then io_throw (createCanvasNotFoundError sanitizedFilename)
            else
              io_bind (io_of (validateContent d sanitizedFilename content)) (\<lambda>parsedContent.
              io_bind (fs_copyFile fullPath backupPath) (\<lambda>_.
              io_catch
                (io_bind (fs_writeFile fullPath content) (\<lambda>_.
                 io_bind (fs_unlink backupPath) (\<lambda>_.
                 io_return \<lparr>r_success = True, r_message = ''Canvas replaced successfully'',
                             r_path = fullPath, r_operation = ''edit''\<rparr>)))
                (\<lambda>writeError.
                   io_bind (fileExists backupPath) (\<lambda>saved.
                   io_bind (io_when saved
                     (io_catch
                        (io_bind (fs_copyFile backupPath fullPath) (\<lambda>_.
                         io_bind (fs_unlink backupPath) (\<lambda>_.
                         console_error (''Restored canvas '' @ fullPath @
                                        '' from backup after write error.''))))
                        (\<lambda>rollbackError.
                           io_throw (McpError InternalError
                             (''Failed to rollback canvas changes after write error. Original error: '' @
                              errorMessage d writeError @ ''. Rollback error: '' @
                              errorMessage d rollbackError @ ''. Backup file preserved at '' @
                              backupPath))))) (\<lambda>_.
                   io_throw writeError)))))))
           (\<lambda>error.
              io_bind (fileExists backupPath) (\<lambda>left.
              io_bind (io_when left
                (io_catch (fs_unlink backupPath)
                   (\<lambda>cleanupError.
                      console_error (''Failed to cleanup backup file '' @ backupPath @
                                     '' during error handling: '' @ errorString d cleanupError)))) (\<lambda>_.
              if isMcpError error then io_throw error
              else io_throw (handleFsError d error ''edit canvas''))))))"

section \<open>edit-note\<close>

datatype EditOperation = Append | Prepend | Replace | Delete

definition operationName :: "EditOperation \<Rightarrow> string" where
  "operationName operation =
     (case operation of Append \<Rightarrow> ''append'' | Prepend \<Rightarrow> ''prepend''
      | Replace \<Rightarrow> ''replace'' | Delete \<Rightarrow> ''delete'')"

text \<open>
  \<open>content\<close> is optional in the signature of editNote. In a string concatenation
  \<open>undefined\<close> reads \<open>"undefined"\<close>; \<open>fs.writeFile(path, undefined)\<close> rejects with a
  TypeError before it touches the file.
\<close>

definition jsConcatOperand :: "string option \<Rightarrow> string" where
  "jsConcatOperand c = (case c of None \<Rightarrow> ''undefined'' | Some s \<Rightarrow> s)"

definition fs_writeFileOpt :: "fpath \<Rightarrow> string option \<Rightarrow> unit io" where
  "fs_writeFileOpt p c =
     (case c of None \<Rightarrow> io_throw (FsError ''ERR_INVALID_ARG_TYPE'') | Some s \<Rightarrow> fs_writeFile p s)"

definition blankLine :: string where
  "blankLine = [CHR 0x0A, CHR 0x0A]"

definition newNoteContent :: "deps \<Rightarrow> EditOperation \<Rightarrow> string \<Rightarrow> string option \<Rightarrow> string option" where
  "newNoteContent d operation existingContent content =
     (if operation = Append then
        Some (trim d existingContent @ (if trim d existingContent \<noteq> [] then blankLine else []) @
              jsConcatOperand content)
      else if operation = Prepend then
        Some (jsConcatOperand content @ (if trim d existingContent \<noteq> [] then blankLine else []) @
              trim d existingContent)
      else content)"

definition editNote :: "deps \<Rightarrow> fpath \<Rightarrow> string \<Rightarrow> EditOperation \<Rightarrow> string option \<Rightarrow> string option \<Rightarrow> nat \<Rightarrow> op_result io" where
  "editNote d vaultPath filename operation content folder timestamp =
     (let sanitizedFilename = ensureMarkdownExtension d filename;
          fullPath = resolvePath d vaultPath folder sanitizedFilename
      in io_bind (checkVaultPath d vaultPath fullPath) (\<lambda>_.
         let backupPath = backupPathOf fullPath timestamp
         in io_catch
           (io_bind
              (if operation \<noteq> Delete then
                 io_bind (fileExists fullPath) (\<lambda>present.
                 io_when present (fs_copyFile fullPath backupPath))
               else io_return ()) (\<lambda>_.
            if operation = Delete then
              io_bind (fileExists fullPath) (\<lambda>present.
              if \<not> present then io_throw (createNoteNotFoundError filename)
              else
                io_bind (fs_copyFile fullPath backupPath) (\<lambda>_.
                io_bind (fs_unlink fullPath) (\<lambda>_.
                io_bind (\<lambda>w. (Inr (), record_event (EvSetTimeoutUnlink 5000 backupPath) w)) (\<lambda>_.
                io_return \<lparr>r_success = True, r_message = ''Note deleted successfully'',
                            r_path = fullPath, r_operation = ''delete''\<rparr>))))
            else
              io_bind (fileExists fullPath) (\<lambda>present.
              if \<not> present then io_throw (createNoteNotFoundError filename)
              else
                io_catch
                  (io_bind (fs_readFile fullPath) (\<lambda>existingContent.
                   io_bind (fs_writeFileOpt fullPath
                              (newNoteContent d operation existingContent content)) (\<lambda>_.
                   io_bind (fs_unlink backupPath) (\<lambda>_.
                   io_return \<lparr>r_success = True,
                               r_message = ''Note '' @ operationName operation @ ''ed successfully'',
                               r_path = fullPath, r_operation = ''edit''\<rparr>))))
                  (\<lambda>error.
                     io_bind (fileExists backupPath) (\<lambda>saved.
                     io_bind (io_when saved
                       (io_catch
                          (io_bind (fs_copyFile backupPath fullPath) (\<lambda>_.
                           fs_unlink backupPath))
                          (\<lambda>rollbackError.
                             io_throw (McpError InternalError
                               (''Failed to rollback changes. Original error: '' @
                                errorMessage d error @ ''. Rollback error: '' @
                                errorMessage d rollbackError @ ''. Backup file preserved at '' @
                                backupPath))))) (\<lambda>_.
                     io_throw error))))))
           (\<lambda>error.
              io_bind (fileExists backupPath) (\<lambda>left.
              io_bind (io_when left
                (io_catch
                   (io_bind (fs_copyFile backupPath fullPath) (\<lambda>_.
                    fs_unlink backupPath))
                   (\<lambda>rollbackError.
                      console_error (''Failed to cleanup/restore backup during error handling: '' @
                                     errorMessage d rollbackError)))) (\<lambda>_.
              if isMcpError error then io_throw error
              else io_throw (handleFsError d error (operationName operation @ '' note'')))))))"

section \<open>delete-canvas\<close>

definition quoted :: "string \<Rightarrow> string" where
  "quoted s = [CHR 0x22] @ s @ [CHR 0x22]"


text \<open>\<open>try { await fs.unlink(p).catch(() => {}); } catch {}\<close>\<close>

definition unlinkQuietly :: "fpath \<Rightarrow> unit io" where
  "unlinkQuietly p = io_catch (fs_unlink p) (\<lambda>e. io_return ())"









section \<open>search-vault\<close>

datatype SearchType = Content | Filename | Both

record SearchOptions =
  so_path :: "string option"
  so_caseSensitive :: bool
  so_searchType :: SearchType

record SearchMatch =
  m_line :: nat
  m_text :: string

record SearchResult =
  sr_file :: string
  sr_matches :: "SearchMatch list"

record SearchOperationResult =
  s_success :: bool
  s_message :: string
  s_results :: "SearchResult list"
  s_totalMatches :: nat
  s_matchedFiles :: nat

text \<open>\<open>String.prototype.includes\<close> and \<open>split("\n")\<close>\<close>

fun jsIncludes :: "string \<Rightarrow> string \<Rightarrow> bool" where
  "jsIncludes [] q = (q = [])"
| "jsIncludes (c # cs) q = (take (length q) (c # cs) = q \<or> jsIncludes cs q)"

fun splitLines :: "string \<Rightarrow> string list" where
  "splitLines [] = [[]]"
| "splitLines (c # cs) =
     (if c = CHR 0x0A then [] # splitLines cs
      else (case splitLines cs of l # ls \<Rightarrow> (c # l) # ls | [] \<Rightarrow> [[c]]))"

definition isTagSearch :: "string \<Rightarrow> bool" where
  "isTagSearch query = (take 4 query = ''tag:'')"

definition normalizeTagQuery :: "deps \<Rightarrow> string \<Rightarrow> string" where
  "normalizeTagQuery d query = normalizeTag d (drop 4 query)"

definition searchDirOf :: "deps \<Rightarrow> fpath \<Rightarrow> SearchOptions \<Rightarrow> error + fpath" where
  "searchDirOf d vaultPath options =
     (if truthy (so_path options) then safeJoinPath d vaultPath (the (so_path options))
      else Inr vaultPath)"

definition searchFilenames :: "deps \<Rightarrow> fpath \<Rightarrow> string \<Rightarrow> SearchOptions \<Rightarrow> SearchResult list io" where
  "searchFilenames d vaultPath query options =
     io_catch
       (io_bind (io_of (searchDirOf d vaultPath options)) (\<lambda>searchDir.
        io_bind (getAllMarkdownFiles d vaultPath searchDir) (\<lambda>found.
        let searchQuery = (if so_caseSensitive options then query else toLowerCase d query)
        in io_return
             (map (\<lambda>relativePath.
                     \<lparr>sr_file = relativePath,
                      sr_matches = [\<lparr>m_line = 0, m_text = ''Filename match: '' @ relativePath\<rparr>]\<rparr>)
                  (filter (\<lambda>relativePath.
                             jsIncludes (if so_caseSensitive options then relativePath
                                         else toLowerCase d relativePath) searchQuery)
                          (map (pathRelative d vaultPath) found))))))
       (\<lambda>error.
          if isMcpError error then io_throw error
          else io_throw (handleFsError d error ''search filenames''))"

definition lineMatches :: "deps \<Rightarrow> string \<Rightarrow> SearchOptions \<Rightarrow> string \<Rightarrow> bool" where
  "lineMatches d query options line =
     (if isTagSearch query then
        list_ex (\<lambda>tag. normalizeTag d tag = normalizeTagQuery d query \<or>
                       matchesTagPattern d (normalizeTagQuery d query) (normalizeTag d tag))
                (extractTags d line)
      else
        jsIncludes (if so_caseSensitive options then line else toLowerCase d line)
                   (if so_caseSensitive options then query else toLowerCase d query))"

definition fileMatches :: "deps \<Rightarrow> string \<Rightarrow> SearchOptions \<Rightarrow> string \<Rightarrow> SearchMatch list" where
  "fileMatches d query options content =
     map (\<lambda>(index, line). \<lparr>m_line = index + 1, m_text = trim d line\<rparr>)
         (filter (\<lambda>(index, line). lineMatches d query options line)
                 (enumerate 0 (splitLines content)))"

text \<open>
  The loop of searchContent over the files: a file that cannot be read is logged with
  \<open>console.error\<close> and skipped.
\<close>

fun searchContentFiles :: "deps \<Rightarrow> fpath \<Rightarrow> string \<Rightarrow> SearchOptions \<Rightarrow> fpath list \<Rightarrow> SearchResult list \<Rightarrow> SearchResult list io" where
  "searchContentFiles d vaultPath query options [] results = io_return results"
| "searchContentFiles d vaultPath query options (file # rest) results =
     io_bind
       (io_catch
          (io_bind (fs_readFile file) (\<lambda>content.
           let matches = fileMatches d query options content
           in io_return
                (if matches \<noteq> []
                 then results @ [\<lparr>sr_file = pathRelative d vaultPath file, sr_matches = matches\<rparr>]
                 else results)))
          (\<lambda>err.
             io_bind (console_error_with (''Error reading file '' @ file @ '':'') err) (\<lambda>_.
             io_return results)))
       (searchContentFiles d vaultPath query options rest)"

definition searchContent :: "deps \<Rightarrow> fpath \<Rightarrow> string \<Rightarrow> SearchOptions \<Rightarrow> SearchResult list io" where
  "searchContent d vaultPath query options =
     io_catch
       (io_bind (io_of (searchDirOf d vaultPath options)) (\<lambda>searchDir.
        io_bind (getAllMarkdownFiles d vaultPath searchDir) (\<lambda>found.
        searchContentFiles d vaultPath query options found [])))
       (\<lambda>error.
          if isMcpError error then io_throw error
          else io_throw (handleFsError d error ''search content''))"

text \<open>
  One sub-search inside searchVault: its results, or the line pushed on \<open>errors\<close> when
  it throws.
\<close>

definition subSearch :: "deps \<Rightarrow> string \<Rightarrow> SearchResult list io \<Rightarrow> (SearchResult list \<times> string list) io" where
  "subSearch d label search =
     io_catch
       (io_bind search (\<lambda>found. io_return (found, [])))
       (\<lambda>error.
          io_return ([], [if isMcpError error then label @ '' search error: '' @ errorMessage d error
                          else label @ '' search failed: '' @ errorMessage d error]))"

definition searchVault :: "deps \<Rightarrow> fpath \<Rightarrow> string \<Rightarrow> SearchOptions \<Rightarrow> SearchOperationResult io" where
  "searchVault d vaultPath query options =
     io_catch
       (let normalizedVaultPath = normalizePath d vaultPath
        in io_bind
             (if so_searchType options = Filename \<or> so_searchType options = Both
              then subSearch d ''Filename'' (searchFilenames d normalizedVaultPath query options)
              else io_return ([], [])) (\<lambda>(results1, errors1).
           io_bind
             (if so_searchType options = Content \<or> so_searchType options = Both
              then subSearch d ''Content'' (searchContent d normalizedVaultPath query options)
              else io_return ([], [])) (\<lambda>(results2, errors2).
           let results = results1 @ results2;
               errors = errors1 @ errors2;
               totalMatches = sum_list (map (\<lambda>r. length (sr_matches r)) results)
           in if results \<noteq> [] \<and> errors \<noteq> [] then
                io_return \<lparr>s_success = True,
                            s_message = ''Search completed with warnings:'' @ [CHR 0x0A] @
                                        joinWith [CHR 0x0A] errors,
                            s_results = results, s_totalMatches = totalMatches,
                            s_matchedFiles = length results\<rparr>
              else if results = [] \<and> errors \<noteq> [] then
                io_throw (McpError InternalError
                            (''Search failed:'' @ [CHR 0x0A] @ joinWith [CHR 0x0A] errors))
              else
                io_return \<lparr>s_success = True, s_message = ''Search completed successfully'',
                            s_results = results, s_totalMatches = totalMatches,
                            s_matchedFiles = length results\<rparr>)))
       (\<lambda>error.
          if isMcpError error then io_throw error
          else io_throw (handleFsError d error ''search vault''))"

text \<open>
  What \<open>fs.readFile\<close> of a file returns or throws when it is the \<open>i\<close>-th coming call of
  the world that can fail.
\<close>

definition readAt :: "world \<Rightarrow> nat \<Rightarrow> fpath \<Rightarrow> error + string" where
  "readAt w i file = fst (fs_readFile file (w\<lparr>faults := (\<lambda>n. faults w (n + i))\<rparr>))"

section \<open>list-files\<close>

text \<open>
  The directory tree as \<open>fs.readdir(dir, { withFileTypes: true })\<close> shows it: an entry
  is a regular file, a directory with its entries, a directory whose listing fails
  with the given message, or anything else (a symbolic link, a device). For a
  directory below the vault root, \<open>path.relative(vaultPath, path.join(dirPath, name))\<close>
  is the names from the root down joined with the separator; \<open>rel\<close> holds the names
  down to \<open>dirPath\<close>.
\<close>

datatype fsnode =
    RegularFile
  | Directory "(string \<times> fsnode) list"
  | UnreadableDirectory string
  | OtherNode

definition isDirectory :: "fsnode \<Rightarrow> bool" where
  "isDirectory e = (case e of Directory es \<Rightarrow> True | UnreadableDirectory m \<Rightarrow> True | _ \<Rightarrow> False)"

definition isFile :: "fsnode \<Rightarrow> bool" where
  "isFile e = (e = RegularFile)"

definition relativePathOf :: "string list \<Rightarrow> string" where
  "relativePathOf names = joinWith ''/'' names"

definition skipped :: "string list \<Rightarrow> string \<Rightarrow> bool" where
  "skipped ignored name = (name \<in> set ignored \<or> take 1 name = ''.'')"

text \<open>
  The result and the lines logged. The callbacks of \<open>entries.map\<close> push the files of
  the directory itself at once and append the listing of each subdirectory when it
  completes; the model appends them in the order of the entries.
\<close>

fun listFilesRecursive :: "fpath \<Rightarrow> string list \<Rightarrow> fsnode \<Rightarrow> string list \<Rightarrow> string list \<times> string list" where
  "listFilesRecursive vaultPath rel (Directory entries) ignored =
     (let visible = filter (\<lambda>(name, e). \<not> skipped ignored name) entries;
          subs = map (\<lambda>(name, e). listFilesRecursive vaultPath (rel @ [name]) e ignored)
                     (filter (\<lambda>(name, e). isDirectory e) visible)
      in (map (\<lambda>(name, e). relativePathOf (rel @ [name])) (filter (\<lambda>(name, e). isFile e) visible) @
          concat (map fst subs),
          concat (map snd subs)))"
| "listFilesRecursive vaultPath rel (UnreadableDirectory msg) ignored =
     ([], [''Error reading directory '' @ joinWith ''/'' (vaultPath # rel) @ '': '' @ msg])"
| "listFilesRecursive vaultPath rel RegularFile ignored =
     ([], [''Error reading directory '' @ joinWith ''/'' (vaultPath # rel) @ '': ENOTDIR''])"
| "listFilesRecursive vaultPath rel OtherNode ignored =
     ([], [''Error reading directory '' @ joinWith ''/'' (vaultPath # rel) @ '': ENOTDIR''])"

text \<open>
  listFilesRecursive catches every error itself, so the \<open>catch\<close> of listVaultFiles is
  never entered. \<open>allFiles.sort()\<close> orders strings by their code units.
\<close>

definition listVaultFiles :: "fpath \<Rightarrow> fsnode \<Rightarrow> string list" where
  "listVaultFiles vaultPath tree =
     sort (fst (listFilesRecursive vaultPath [] tree [''.obsidian'', ''.trash'', ''node_modules'']))"

text \<open>Whether the names, followed from a node down through its entries, lead to a node.\<close>

fun leadsTo :: "fsnode \<Rightarrow> string list \<Rightarrow> fsnode \<Rightarrow> bool" where
  "leadsTo e [] target = (e = target)"
| "leadsTo (Directory entries) (name # names) target =
     list_ex (\<lambda>(n, e). n = name \<and> leadsTo e names target) entries"
| "leadsTo e (name # names) target = False"

section \<open>An instance of the parameters\<close>

text \<open>
  The examples below run the tools on this instance: POSIX paths without \<open>.\<close> and
  \<open>..\<close> segments, ASCII letters and white space, and \<open>JSON.parse\<close> and
  \<open>JSON.stringify(v, null, 2)\<close> on the inputs the examples use (any other input is
  answered with a syntax error, respectively the empty string).
\<close>

definition sampleParse :: json_parser where
  "sampleParse s =
     (case map_of
        [([CHR ''{'', CHR 0x22] @ ''foo'' @ [CHR 0x22] @ '':1}'',
            JObj [(''foo'', JNum 1)]),
         ([CHR ''{'', CHR 0x22] @ ''nodes'' @ [CHR 0x22] @ '':[],'' @ [CHR 0x22] @ ''edges'' @
          [CHR 0x22] @ '':[]}'',
            JObj [(''nodes'', JArr []), (''edges'', JArr [])]),
         (''{}'', JObj [])] s of
        Some v \<Rightarrow> Inr v
      | None \<Rightarrow> Inl ''Unexpected token'')"

definition sampleStringify :: "json \<Rightarrow> string" where
  "sampleStringify v =
     (case map_of
        [(JObj [(''nodes'', JArr []), (''edges'', JArr [])],
            ''{'' @ [CHR 0x0A] @ ''  '' @ quoted ''nodes'' @ '': [],'' @ [CHR 0x0A] @
            ''  '' @ quoted ''edges'' @ '': []'' @ [CHR 0x0A] @ ''}''),
         (JObj [(''originalPath'', JStr ''board.canvas''),
                (''deletedAt'', JStr ''2026-01-02T03:04:05.678Z'')],
            ''{'' @ [CHR 0x0A] @ ''  '' @ quoted ''originalPath'' @ '': '' @ quoted ''board.canvas'' @
            '','' @ [CHR 0x0A] @ ''  '' @ quoted ''deletedAt'' @ '': '' @
            quoted ''2026-01-02T03:04:05.678Z'' @ [CHR 0x0A] @ ''}''),
         (JObj [], ''{}'')] v of
        Some s \<Rightarrow> s
      | None \<Rightarrow> [])"

definition isSpace :: "char \<Rightarrow> bool" where
  "isSpace c = (c \<in> set [CHR '' '', CHR 0x09, CHR 0x0A, CHR 0x0B, CHR 0x0C, CHR 0x0D])"

definition asciiTrim :: "string \<Rightarrow> string" where
  "asciiTrim s = rev (dropWhile isSpace (rev (dropWhile isSpace s)))"

definition asciiLower :: "string \<Rightarrow> string" where
  "asciiLower s =
     map (\<lambda>c. case map_of (zip ''ABCDEFGHIJKLMNOPQRSTUVWXYZ'' ''abcdefghijklmnopqrstuvwxyz'') c of
                Some l \<Rightarrow> l
              | None \<Rightarrow> c) s"

definition endsWith :: "string \<Rightarrow> string \<Rightarrow> bool" where
  "endsWith s suffix = (length suffix \<le> length s \<and> drop (length s - length suffix) s = suffix)"

definition withExtension :: "string \<Rightarrow> string \<Rightarrow> string" where
  "withExtension ext name = (if endsWith name ext then name else name @ ext)"

definition lastSegment :: "fpath \<Rightarrow> string" where
  "lastSegment p = rev (takeWhile (\<lambda>c. c \<noteq> CHR ''/'') (rev p))"

definition posixDirname :: "fpath \<Rightarrow> fpath" where
  "posixDirname p = rev (drop 1 (dropWhile (\<lambda>c. c \<noteq> CHR ''/'') (rev p)))"

definition posixBasename :: "fpath \<Rightarrow> string \<Rightarrow> string" where
  "posixBasename p ext =
     (let name = lastSegment p
      in if endsWith name ext \<and> name \<noteq> ext then take (length name - length ext) name else name)"

text \<open>
  The numbers of the SDK's \<open>ErrorCode\<close>: InvalidParams and InternalError are its own
  members; the instance gives a storage failure the number of InternalError and the
  other kinds that of InvalidRequest.
\<close>

definition sampleCode :: "errkind \<Rightarrow> int" where
  "sampleCode k =
     (case k of
        InvalidParams \<Rightarrow> - 32602
      | InternalError \<Rightarrow> - 32603
      | FsFailure \<Rightarrow> - 32603
      | _ \<Rightarrow> - 32600)"

definition sampleDeps :: deps where
  "sampleDeps =
     \<lparr>jsonParse = sampleParse,
      jsonStringify2 = sampleStringify,
      isUrl = (\<lambda>s. s = ''https://example.com/''),
      zodMessage = (\<lambda>c. ''Invalid input''),
      toLowerCase = asciiLower,
      trim = asciiTrim,
      pathJoin = joinWith ''/'',
      pathDirname = posixDirname,
      pathBasename = posixBasename,
      pathRelative = (\<lambda>base p. drop (length base + 1) p),
      ensureCanvasExtension = withExtension ''.canvas'',
      ensureMarkdownExtension = withExtension ''.md'',
      validateVaultPath = (\<lambda>vaultPath p. None),
      formatFileResult = r_message,
      extractTags = (\<lambda>s. []),
      normalizeTag = (\<lambda>s. s),
      matchesTagPattern = (\<lambda>a b. False),
      normalizePath = (\<lambda>p. p),
      safeJoinPath = (\<lambda>base p. Inr (joinWith ''/'' [base, p])),
      getAllMarkdownFiles = (\<lambda>vaultPath dir. io_return []),
      errorCode = sampleCode\<rparr>"

text \<open>A vault holding one canvas and one note, and the clock of the examples.\<close>

definition emptyCanvasJson :: string where
  "emptyCanvasJson =
     [CHR ''{'', CHR 0x22] @ ''nodes'' @ [CHR 0x22] @ '':[],'' @ [CHR 0x22] @ ''edges'' @
     [CHR 0x22] @ '':[]}''"

definition unknownKeyJson :: string where
  "unknownKeyJson = [CHR ''{'', CHR 0x22] @ ''foo'' @ [CHR 0x22] @ '':1}''"

definition sampleWorld :: "outcome list \<Rightarrow> world" where
  "sampleWorld outcomes =
     \<lparr>files = [''/vault/board.canvas'' \<mapsto> ''{}'', ''/vault/daily.md'' \<mapsto> ''# Today''],
      dirs = {''/vault''},
      faults = schedule outcomes,
      trace = []\<rparr>"

definition sampleNow :: nat where
  "sampleNow = 1762041600000"

text \<open>
  The sample vault with \<open>{"foo":1}\<close> in its canvas; the arguments that create the canvas
  \<open>new\<close>, and the world after that call.
\<close>

definition unknownKeyWorld :: world where
  "unknownKeyWorld = (sampleWorld [])\<lparr>files := [''/vault/board.canvas'' \<mapsto> unknownKeyJson]\<rparr>"

definition newCanvasArgs :: create_args where
  "newCanvasArgs = \<lparr>ca_filename = ''new'', ca_content = emptyCanvasJson, ca_folder = None\<rparr>"

definition createdWorld :: world where
  "createdWorld = snd (createCanvas sampleDeps newCanvasArgs ''/vault'' (sampleWorld []))"



text \<open>
  For the search examples: a vault with a second note, a listing of the markdown files
  that can fail as the other file-system calls do, and the options of a content search
  and of a search of both kinds.
\<close>

definition searchWorld :: "outcome list \<Rightarrow> world" where
  "searchWorld outcomes =
     (sampleWorld outcomes)\<lparr>files :=
        [''/vault/secret.md'' \<mapsto> ''today is a secret'', ''/vault/daily.md'' \<mapsto> ''# Today'']\<rparr>"

definition searchDeps :: deps where
  "searchDeps =
     sampleDeps\<lparr>getAllMarkdownFiles := (\<lambda>vaultPath dir w.
        case next_outcome w of
          (Ok, w1) \<Rightarrow> (Inr [''/vault/secret.md'', ''/vault/daily.md''], w1)
        | (Fail m, w1) \<Rightarrow> (Inl (FsError m), w1)
        | (FailPartial m c, w1) \<Rightarrow> (Inl (FsError m), w1))\<rparr>"

definition contentSearch :: SearchOptions where
  "contentSearch = \<lparr>so_path = None, so_caseSensitive = False, so_searchType = Content\<rparr>"

definition bothSearch :: SearchOptions where
  "bothSearch = \<lparr>so_path = None, so_caseSensitive = False, so_searchType = Both\<rparr>"

text \<open>A vault tree with hidden and ignored folders, a link and a folder that cannot be read.\<close>

definition sampleTree :: fsnode where
  "sampleTree =
     Directory
       [(''notes'', Directory [(''b.md'', RegularFile), (''a.md'', RegularFile)]),
        (''.trash'', Directory [(''old.canvas'', RegularFile)]),
        (''.obsidian'', Directory [(''app.json'', RegularFile)]),
        (''node_modules'', Directory [(''index.js'', RegularFile)]),
        (''Zeta.md'', RegularFile),
        (''board.canvas'', RegularFile),
        (''.hidden.md'', RegularFile),
        (''shortcut'', OtherNode),
        (''locked'', UnreadableDirectory ''EACCES'')]"




section \<open>Evaluation lemmas\<close>

declare decimal.simps [simp del]

lemmas io_defs = io_return_def io_throw_def io_bind_def io_catch_def io_when_def io_of_def
  record_event_def next_outcome_def console_error_def console_error_with_def
  fs_copyFile_def fs_writeFile_def fs_writeFileOpt_def fs_readFile_def fs_unlink_def
  fs_rename_def fileExists_def ensureDirectory_def checkVaultPath_def unlinkQuietly_def

lemma sampleDeps_sel:
  "jsonParse sampleDeps = sampleParse"
  "jsonStringify2 sampleDeps = sampleStringify"
  "isUrl sampleDeps = (\<lambda>s. s = ''https://example.com/'')"
  "zodMessage sampleDeps = (\<lambda>c. ''Invalid input'')"
  "toLowerCase sampleDeps = asciiLower"
  "trim sampleDeps = asciiTrim"
  "pathJoin sampleDeps = joinWith ''/''"
  "pathDirname sampleDeps = posixDirname"
  "pathBasename sampleDeps = posixBasename"
  "pathRelative sampleDeps = (\<lambda>base p. drop (length base + 1) p)"
  "ensureCanvasExtension sampleDeps = withExtension ''.canvas''"
  "ensureMarkdownExtension sampleDeps = withExtension ''.md''"
  "validateVaultPath sampleDeps = (\<lambda>vaultPath p. None)"
  "formatFileResult sampleDeps = r_message"
  "extractTags sampleDeps = (\<lambda>s. [])"
  "normalizeTag sampleDeps = (\<lambda>s. s)"
  "matchesTagPattern sampleDeps = (\<lambda>a b. False)"
  "normalizePath sampleDeps = (\<lambda>p. p)"
  "safeJoinPath sampleDeps = (\<lambda>base p. Inr (joinWith ''/'' [base, p]))"
  "getAllMarkdownFiles sampleDeps = (\<lambda>vaultPath dir. io_return [])"
  "errorCode sampleDeps = sampleCode"
  by (simp_all add: sampleDeps_def)

lemma decimal_sampleNow: "decimal sampleNow = ''1762041600000''"
  by (simp add: sampleNow_def decimal.simps)

lemmas sample_defs = sampleDeps_sel sampleWorld_def schedule_def withExtension_def endsWith_def
  resolvePath_def truthy_def backupPathOf_def decimal_sampleNow isMcpError_def handleFsError_def
  errorMessage_def

lemma sample_emptyCanvas_valid:
  "validateContent sampleDeps ''board.canvas'' emptyCanvasJson =
     Inr (JObj [(''nodes'', JArr []), (''edges'', JArr [])])"
  by code_simp

section \<open>Safe edits: the backup, the write and the rollback\<close>

lemma backupPathOf_neq: "backupPathOf p t \<noteq> p"
proof
  assume "backupPathOf p t = p"
  then have "length (backupPathOf p t) = length p" by simp
  then show False by (simp add: backupPathOf_def)
qed

lemma editCanvas_restores:
  assumes guard: "validateVaultPath d vaultPath fullPath = None"
    and fp: "fullPath = resolvePath d vaultPath folder (ensureCanvasExtension d filename)"
    and ex: "files w fullPath = Some old"
    and valid: "validateContent d (ensureCanvasExtension d filename) content = Inr v"
    and fl: "faults w 0 = Ok" "faults w 1 = f" "faults w 2 = Ok" "faults w 3 = Ok"
    and f: "f \<noteq> Ok"
  shows "case editCanvas d vaultPath filename content folder timestamp w of (r, w') \<Rightarrow>
           files w' = (files w)(backupPathOf fullPath timestamp := None) \<and>
           files w' fullPath = Some old \<and>
           files w' (backupPathOf fullPath timestamp) = None \<and>
           (\<exists>m. r = Inl (McpError FsFailure m))"
proof -
  have ne: "backupPathOf fullPath timestamp \<noteq> fullPath" by (rule backupPathOf_neq)
  show ?thesis
  proof (cases f)
    case Ok
    with f show ?thesis by simp
  next
    case (Fail m)
    with guard ex valid fl ne fp[symmetric] show ?thesis
      by (auto simp: editCanvas_def Let_def io_defs isMcpError_def handleFsError_def
            fun_upd_twist eval_nat_numeral)
  next
    case (FailPartial m c)
    with guard ex valid fl ne fp[symmetric] show ?thesis
      by (auto simp: editCanvas_def Let_def io_defs isMcpError_def handleFsError_def
            fun_upd_twist eval_nat_numeral)
  qed
qed

lemma editNote_restores:
  assumes guard: "validateVaultPath d vaultPath fullPath = None"
    and fp: "fullPath = resolvePath d vaultPath folder (ensureMarkdownExtension d filename)"
    and ex: "files w fullPath = Some old"
    and op: "operation \<noteq> Delete"
    and fl: "faults w 0 = Ok" "faults w 1 = Ok" "faults w 2 = f" "faults w 3 = Ok"
            "faults w 4 = Ok"
    and f: "f \<noteq> Ok"
  shows "case editNote d vaultPath filename operation (Some content) folder timestamp w of
           (r, w') \<Rightarrow>
             files w' = (files w)(backupPathOf fullPath timestamp := None) \<and>
             files w' fullPath = Some old \<and>
             files w' (backupPathOf fullPath timestamp) = None \<and>
             (\<exists>m. r = Inl (McpError FsFailure m))"
proof -
  have ne: "backupPathOf fullPath timestamp \<noteq> fullPath" by (rule backupPathOf_neq)
  show ?thesis
  proof (cases f)
    case Ok
    with f show ?thesis by simp
  next
    case (Fail m)
    with guard ex op fl ne fp[symmetric] show ?thesis
      by (cases operation)
         (auto simp: editNote_def Let_def io_defs isMcpError_def handleFsError_def
            fun_upd_twist eval_nat_numeral newNoteContent_def)
  next
    case (FailPartial m c)
    with guard ex op fl ne fp[symmetric] show ?thesis
      by (cases operation)
         (auto simp: editNote_def Let_def io_defs isMcpError_def handleFsError_def
            fun_upd_twist eval_nat_numeral newNoteContent_def)
  qed
qed

text \<open>
  Claim C1, as amended. An edit-canvas call, or an edit-note call with operation
  append, prepend or replace, runs on an existing target. The snapshot succeeds, the
  write of the new content fails (leaving the target untouched or with partial
  content), and the copy back from the backup and the removal of the backup then
  succeed. After the call the target holds exactly its content from before the call, no
  backup file is on disk, no other file has changed, and the call has failed with the
  wrapped storage error.
\<close>

theorem safe_edit_restores_after_failed_write:
  assumes "f \<noteq> Ok"
  shows "(validateVaultPath d vaultPath canvasPath = None \<and>
          canvasPath = resolvePath d vaultPath folder (ensureCanvasExtension d filename) \<and>
          files w canvasPath = Some old \<and>
          validateContent d (ensureCanvasExtension d filename) content = Inr v \<and>
          faults w 0 = Ok \<and> faults w 1 = f \<and> faults w 2 = Ok \<and> faults w 3 = Ok \<longrightarrow>
          (case editCanvas d vaultPath filename content folder timestamp w of (r, w') \<Rightarrow>
             files w' canvasPath = Some old \<and>
             files w' (backupPathOf canvasPath timestamp) = None \<and>
             files w' = (files w)(backupPathOf canvasPath timestamp := None) \<and>
             (\<exists>m. r = Inl (McpError FsFailure m)))) \<and>
         (validateVaultPath d vaultPath notePath = None \<and>
          notePath = resolvePath d vaultPath folder (ensureMarkdownExtension d filename) \<and>
          files w notePath = Some old \<and> operation \<noteq> Delete \<and>
          faults w 0 = Ok \<and> faults w 1 = Ok \<and> faults w 2 = f \<and> faults w 3 = Ok \<and>
          faults w 4 = Ok \<longrightarrow>
          (case editNote d vaultPath filename operation (Some content) folder timestamp w of
             (r, w') \<Rightarrow>
               files w' notePath = Some old \<and>
               files w' (backupPathOf notePath timestamp) = None \<and>
               files w' = (files w)(backupPathOf notePath timestamp := None) \<and>
               (\<exists>m. r = Inl (McpError FsFailure m))))"
proof (intro conjI impI)
  assume h: "validateVaultPath d vaultPath canvasPath = None \<and>
          canvasPath = resolvePath d vaultPath folder (ensureCanvasExtension d filename) \<and>
          files w canvasPath = Some old \<and>
          validateContent d (ensureCanvasExtension d filename) content = Inr v \<and>
          faults w 0 = Ok \<and> faults w 1 = f \<and> faults w 2 = Ok \<and> faults w 3 = Ok"
  from h assms
    editCanvas_restores[where d=d and vaultPath=vaultPath and fullPath=canvasPath and
      folder=folder and filename=filename and w=w and old=old and content=content and v=v and
      f=f and timestamp=timestamp]
  show "case editCanvas d vaultPath filename content folder timestamp w of (r, w') \<Rightarrow>
             files w' canvasPath = Some old \<and>
             files w' (backupPathOf canvasPath timestamp) = None \<and>
             files w' = (files w)(backupPathOf canvasPath timestamp := None) \<and>
             (\<exists>m. r = Inl (McpError FsFailure m))"
    by (auto split: prod.splits)
next
  assume h: "validateVaultPath d vaultPath notePath = None \<and>
          notePath = resolvePath d vaultPath folder (ensureMarkdownExtension d filename) \<and>
          files w notePath = Some old \<and> operation \<noteq> Delete \<and>
          faults w 0 = Ok \<and> faults w 1 = Ok \<and> faults w 2 = f \<and> faults w 3 = Ok \<and>
          faults w 4 = Ok"
  from h assms
    editNote_restores[where d=d and vaultPath=vaultPath and fullPath=notePath and
      folder=folder and filename=filename and w=w and old=old and operation=operation and
      f=f and content=content and timestamp=timestamp]
  show "case editNote d vaultPath filename operation (Some content) folder timestamp w of
          (r, w') \<Rightarrow>
             files w' notePath = Some old \<and>
             files w' (backupPathOf notePath timestamp) = None \<and>
             files w' = (files w)(backupPathOf notePath timestamp := None) \<and>
             (\<exists>m. r = Inl (McpError FsFailure m))"
    by (auto split: prod.splits)
qed

text \<open>
  The theorem at work: the write of an edit-canvas call on \<open>/vault/board.canvas\<close> fails
  with the disk full, and so does the write of an append to \<open>/vault/daily.md\<close>; both
  files are as before and neither backup is left.
\<close>

theorem safe_edit_restores_after_failed_write_witness:
  "(case editCanvas sampleDeps ''/vault'' ''board'' emptyCanvasJson None sampleNow
           (sampleWorld [Ok, FailPartial ''ENOSPC'' ''{'']) of
      (r, w') \<Rightarrow>
        files w' ''/vault/board.canvas'' = Some ''{}'' \<and>
        files w' (backupPathOf ''/vault/board.canvas'' sampleNow) = None) \<and>
   (case editNote sampleDeps ''/vault'' ''daily'' Append (Some ''more'') None sampleNow
           (sampleWorld [Ok, Ok, Fail ''ENOSPC'']) of
      (r, w') \<Rightarrow>
        files w' ''/vault/daily.md'' = Some ''# Today'' \<and>
        files w' (backupPathOf ''/vault/daily.md'' sampleNow) = None)"
proof -
  have f1: "FailPartial ''ENOSPC'' ''{'' \<noteq> Ok" and f2: "Fail ''ENOSPC'' \<noteq> Ok"
    by simp_all
  have hc: "validateVaultPath sampleDeps ''/vault'' ''/vault/board.canvas'' = None \<and>
      ''/vault/board.canvas'' =
        resolvePath sampleDeps ''/vault'' None (ensureCanvasExtension sampleDeps ''board'') \<and>
      files (sampleWorld [Ok, FailPartial ''ENOSPC'' ''{'']) ''/vault/board.canvas'' = Some ''{}'' \<and>
      validateContent sampleDeps (ensureCanvasExtension sampleDeps ''board'') emptyCanvasJson =
        Inr (JObj [(''nodes'', JArr []), (''edges'', JArr [])]) \<and>
      faults (sampleWorld [Ok, FailPartial ''ENOSPC'' ''{'']) 0 = Ok \<and>
      faults (sampleWorld [Ok, FailPartial ''ENOSPC'' ''{'']) 1 = FailPartial ''ENOSPC'' ''{'' \<and>
      faults (sampleWorld [Ok, FailPartial ''ENOSPC'' ''{'']) 2 = Ok \<and>
      faults (sampleWorld [Ok, FailPartial ''ENOSPC'' ''{'']) 3 = Ok"
    by (simp add: sample_defs sample_emptyCanvas_valid)
  have hn: "validateVaultPath sampleDeps ''/vault'' ''/vault/daily.md'' = None \<and>
      ''/vault/daily.md'' =
        resolvePath sampleDeps ''/vault'' None (ensureMarkdownExtension sampleDeps ''daily'') \<and>
      files (sampleWorld [Ok, Ok, Fail ''ENOSPC'']) ''/vault/daily.md'' = Some ''# Today'' \<and>
      Append \<noteq> Delete \<and>
      faults (sampleWorld [Ok, Ok, Fail ''ENOSPC'']) 0 = Ok \<and>
      faults (sampleWorld [Ok, Ok, Fail ''ENOSPC'']) 1 = Ok \<and>
      faults (sampleWorld [Ok, Ok, Fail ''ENOSPC'']) 2 = Fail ''ENOSPC'' \<and>
      faults (sampleWorld [Ok, Ok, Fail ''ENOSPC'']) 3 = Ok \<and>
      faults (sampleWorld [Ok, Ok, Fail ''ENOSPC'']) 4 = Ok"
    by (simp add: sample_defs)
  from safe_edit_restores_after_failed_write[OF f1, THEN conjunct1, rule_format, OF hc,
         where timestamp=sampleNow]
  have c: "case editCanvas sampleDeps ''/vault'' ''board'' emptyCanvasJson None sampleNow
           (sampleWorld [Ok, FailPartial ''ENOSPC'' ''{'']) of
      (r, w') \<Rightarrow>
        files w' ''/vault/board.canvas'' = Some ''{}'' \<and>
        files w' (backupPathOf ''/vault/board.canvas'' sampleNow) = None"
    by (auto split: prod.splits)
  from safe_edit_restores_after_failed_write[OF f2, THEN conjunct2, rule_format, OF hn,
         where timestamp=sampleNow and content="''more''"]
  have n: "case editNote sampleDeps ''/vault'' ''daily'' Append (Some ''more'') None sampleNow
           (sampleWorld [Ok, Ok, Fail ''ENOSPC'']) of
      (r, w') \<Rightarrow>
        files w' ''/vault/daily.md'' = Some ''# Today'' \<and>
        files w' (backupPathOf ''/vault/daily.md'' sampleNow) = None"
    by (auto split: prod.splits)
  from c n show ?thesis by blast
qed

text \<open>
  Claim C1 as stated fails when the restore fails as well. An append to
  \<open>/vault/daily.md\<close> (content \<open># Today\<close>): the snapshot and the read succeed, the write
  fails leaving \<open># To\<close>, and the copy back fails at both attempts (in the inner and in
  the outer \<open>catch\<close>). The write has failed after a successful snapshot, yet the note no
  longer holds its content and the backup file is still on disk.
\<close>

theorem failed_restore_counterexample:
  "files (snd (editNote sampleDeps ''/vault'' ''daily'' Append (Some ''more'') None sampleNow
       (sampleWorld [Ok, Ok, FailPartial ''ENOSPC'' ''# To'', Fail ''EIO'', Fail ''EIO''])))
     ''/vault/daily.md'' = Some ''# To'' \<and>
   files (sampleWorld [Ok, Ok, FailPartial ''ENOSPC'' ''# To'', Fail ''EIO'', Fail ''EIO''])
     ''/vault/daily.md'' = Some ''# Today'' \<and>
   files (snd (editNote sampleDeps ''/vault'' ''daily'' Append (Some ''more'') None sampleNow
       (sampleWorld [Ok, Ok, FailPartial ''ENOSPC'' ''# To'', Fail ''EIO'', Fail ''EIO''])))
     ''/vault/daily.md.1762041600000.backup'' = Some ''# Today''"
  by (simp add: editNote_def Let_def io_defs sample_defs newNoteContent_def)

text \<open>
  Claim C2 at a failing input. An edit-canvas call on \<open>/vault/board.canvas\<close> (content
  \<open>{}\<close>): the snapshot succeeds, the write fails leaving \<open>{\<close>, and the copy back from
  the backup fails. The call raises the InternalError whose message ends with the path
  of the backup, "preserved"; but the outer \<open>catch\<close> has unlinked that backup, so when
  the call returns the backup is gone and the canvas holds the partial content.
\<close>

theorem editCanvas_failed_rollback_removes_backup:
  "fst (editCanvas sampleDeps ''/vault'' ''board'' emptyCanvasJson None sampleNow
          (sampleWorld [Ok, FailPartial ''ENOSPC'' ''{'', Fail ''EIO''])) =
     Inl (McpError InternalError
       (''Failed to rollback canvas changes after write error. Original error: ENOSPC. '' @
        ''Rollback error: EIO. Backup file preserved at '' @
        ''/vault/board.canvas.1762041600000.backup'')) \<and>
   files (snd (editCanvas sampleDeps ''/vault'' ''board'' emptyCanvasJson None sampleNow
          (sampleWorld [Ok, FailPartial ''ENOSPC'' ''{'', Fail ''EIO''])))
     ''/vault/board.canvas.1762041600000.backup'' = None \<and>
   files (snd (editCanvas sampleDeps ''/vault'' ''board'' emptyCanvasJson None sampleNow
          (sampleWorld [Ok, FailPartial ''ENOSPC'' ''{'', Fail ''EIO''])))
     ''/vault/board.canvas'' = Some ''{''"
  by (simp add: editCanvas_def Let_def io_defs sample_defs sample_emptyCanvas_valid)

section \<open>The canvas schema against the data model\<close>










































text \<open>
  What the union reports when it rejects: for a string that is not a colour, the issue
  of the dirty string option; for a value that is no string, \<open>invalid_union\<close>.
\<close>

lemma canvasColorSchema_rejections:
  "canvasColorSchema p (Some (JStr ''red'')) =
     [Issue p invalid_string (CustomMsg ''Must be a 6-digit hex color code starting with #'')]"
  "canvasColorSchema p (Some (JNum 5)) = [Issue p invalid_union DefaultMsg]"
  by (simp_all add: canvasColorSchema_def z_union_def z_enum_parse_def z_string_parse_def
        checked_def z_regex_def hexColorRegex_def)









lemma canvas_parts:
  "canvasSchema validUrl [] (Some (JObj doc)) =
     z_optional (z_array (nodeSchema validUrl)) [Key ''nodes''] (map_of doc ''nodes'') @
     z_optional (z_array edgeSchema) [Key ''edges''] (map_of doc ''edges'') @
     (let extraKeys = filter (\<lambda>k. k \<noteq> ''nodes'' \<and> k \<noteq> ''edges'') (map fst doc)
      in if extraKeys = [] then []
         else [Issue [] (unrecognized_keys extraKeys)
                 (CustomMsg ''Canvas object must only contain 'nodes' and 'edges' properties'')])"
  by (simp add: canvasSchema_def canvasShape_def z_object_strict_def)






lemma sample_unknownKey_parse: "jsonParse sampleDeps unknownKeyJson = Inr (JObj [(''foo'', JNum 1)])"
  by (simp add: sampleDeps_sel sampleParse_def unknownKeyJson_def emptyCanvasJson_def)

lemma sample_unknownKey_issues:
  "canvasSchema (isUrl sampleDeps) [] (Some (JObj [(''foo'', JNum 1)])) =
     [Issue [] (unrecognized_keys [''foo''])
        (CustomMsg ''Canvas object must only contain 'nodes' and 'edges' properties'')]"
  by (simp add: canvas_parts z_optional_def)






section \<open>The two checks of a canvas payload\<close>

lemma refine_iff_strict:
  "contentRefine d content = (\<exists>parsed. validateContent d sanitizedFilename content = Inr parsed)"
  by (auto simp: contentRefine_def validateContent_def safeParse_success_def zparse_def
        split: sum.splits list.splits)

lemma refine_rejection:
  "\<not> contentRefine d content \<Longrightarrow>
     \<exists>m. validateContent d sanitizedFilename content = Inl (McpError InvalidParams m)"
  by (auto simp: contentRefine_def validateContent_def safeParse_success_def zparse_def
        createInvalidJsonError_def split: sum.splits list.splits)

text \<open>
  Claim C6. For every content string, the refinement of the input schema
  (\<open>JSON.parse\<close>, then \<open>safeParse(...).success\<close>) accepts the string exactly when the
  check in the handler (\<open>JSON.parse\<close>, then \<open>canvasSchema.parse\<close>) returns the parsed
  value; when the refinement rejects, the handler's check raises an InvalidParams error.
\<close>

theorem cheap_check_agrees_with_strict_check:
  "contentRefine d content = (\<exists>parsed. validateContent d sanitizedFilename content = Inr parsed) \<and>
   (\<not> contentRefine d content \<longrightarrow>
      (\<exists>m. validateContent d sanitizedFilename content = Inl (McpError InvalidParams m)))"
  using refine_iff_strict refine_rejection by blast

text \<open>
  Both checks accept the empty canvas \<open>{"nodes":[],"edges":[]}\<close> and both reject
  \<open>{"foo":1}\<close>.
\<close>

theorem cheap_check_agrees_with_strict_check_witness:
  "contentRefine sampleDeps emptyCanvasJson \<and>
   validateContent sampleDeps ''board.canvas'' emptyCanvasJson =
     Inr (JObj [(''nodes'', JArr []), (''edges'', JArr [])]) \<and>
   \<not> contentRefine sampleDeps unknownKeyJson \<and>
   (\<exists>m. validateContent sampleDeps ''board.canvas'' unknownKeyJson = Inl (McpError InvalidParams m))"
proof -
  note main = cheap_check_agrees_with_strict_check
  have a: "contentRefine sampleDeps emptyCanvasJson"
    using main[THEN conjunct1, of sampleDeps emptyCanvasJson "''board.canvas''"]
    by (simp add: sample_emptyCanvas_valid)
  have b: "\<not> contentRefine sampleDeps unknownKeyJson"
    by (simp add: contentRefine_def sample_unknownKey_parse safeParse_success_def
          sample_unknownKey_issues)
  from main[THEN conjunct2, rule_format, OF b]
  have c: "\<exists>m. validateContent sampleDeps ''board.canvas'' unknownKeyJson = Inl (McpError InvalidParams m)" .
  from a b c sample_emptyCanvas_valid show ?thesis by blast
qed

section \<open>create-canvas on a target that exists\<close>

lemmas tool_splits = sum.splits outcome.splits if_splits prod.splits option.splits

lemma createCanvas_exists:
  assumes guard: "validateVaultPath d vaultPath canvasPath = None"
    and cp: "canvasPath = resolvePath d vaultPath (ca_folder args) (ensureCanvasExtension d (ca_filename args))"
    and valid: "validateContent d (ensureCanvasExtension d (ca_filename args)) (ca_content args) = Inr v"
    and ex: "files w canvasPath = Some old"
    and mk: "faults w 0 = Ok"
  shows "case createCanvas d args vaultPath w of (r, w') \<Rightarrow>
           r = Inl (createCanvasExistsError canvasPath) \<and> files w' = files w \<and>
           trace w' = trace w @ [EvMkdir (pathDirname d canvasPath), EvExists canvasPath]"
  using assms(1,3,4,5) cp[symmetric]
  by (simp add: createCanvas_def Let_def io_defs isMcpError_def createCanvasExistsError_def)

lemma createCanvas_invalid:
  assumes guard: "validateVaultPath d vaultPath canvasPath = None"
    and cp: "canvasPath = resolvePath d vaultPath (ca_folder args) (ensureCanvasExtension d (ca_filename args))"
    and invalid: "\<not> contentRefine d (ca_content args)"
  shows "\<exists>m. createCanvas d args vaultPath w = (Inl (McpError InvalidParams m), w)"
proof -
  from refine_rejection[OF invalid]
  obtain m where "validateContent d (ensureCanvasExtension d (ca_filename args)) (ca_content args) = Inl (McpError InvalidParams m)"
    by blast
  with guard cp[symmetric] show ?thesis
    by (simp add: createCanvas_def Let_def io_defs isMcpError_def)
qed

lemma createCanvas_exists_fails:
  assumes guard: "validateVaultPath d vaultPath canvasPath = None"
    and cp: "canvasPath = resolvePath d vaultPath (ca_folder args) (ensureCanvasExtension d (ca_filename args))"
    and valid: "validateContent d (ensureCanvasExtension d (ca_filename args)) (ca_content args) = Inr v"
    and ex: "files w canvasPath = Some old"
  shows "case createCanvas d args vaultPath w of (r, w') \<Rightarrow>
           (\<exists>e. r = Inl e) \<and> files w' = files w"
  using guard valid ex cp[symmetric]
  by (cases "faults w 0")
     (simp_all add: createCanvas_def Let_def io_defs isMcpError_def createCanvasExistsError_def
        handleFsError_def)

lemma createCanvas_trace:
  assumes cp: "canvasPath = resolvePath d vaultPath (ca_folder args) (ensureCanvasExtension d (ca_filename args))"
  shows "case createCanvas d args vaultPath w of (r, w') \<Rightarrow>
           \<exists>evs. trace w' = trace w @ evs \<and>
             set evs \<subseteq> {EvMkdir (pathDirname d canvasPath), EvExists canvasPath,
                         EvWriteFile canvasPath (ca_content args)}"
  using cp[symmetric]
  by (auto simp: createCanvas_def Let_def io_defs isMcpError_def split: tool_splits)


text \<open>
  Claim C7. A create-canvas call whose payload passes the validation, whose target file
  already exists and whose parent-directory step succeeds fails with the AlreadyExists
  error; the files are unchanged, and the calls made on the file system are the
  directory creation and then the existence check, nothing else. Whatever the
  directory step does, the call fails and the files are unchanged. The validation comes
  first: a payload that fails it is refused with InvalidParams before any call on the
  file system, whether or not the target exists. And no run of create-canvas makes
  another call than the directory creation, the existence check and the write of the
  target: it takes no snapshot and restores nothing.
\<close>

theorem create_canvas_refuses_existing_target:
  assumes "validateVaultPath d vaultPath canvasPath = None"
    and "canvasPath = resolvePath d vaultPath (ca_folder args)
                        (ensureCanvasExtension d (ca_filename args))"
  shows "(validateContent d (ensureCanvasExtension d (ca_filename args)) (ca_content args) = Inr v \<and>
          files w canvasPath = Some old \<and> faults w 0 = Ok \<longrightarrow>
          (case createCanvas d args vaultPath w of (r, w') \<Rightarrow>
             r = Inl (createCanvasExistsError canvasPath) \<and> files w' = files w \<and>
             trace w' = trace w @ [EvMkdir (pathDirname d canvasPath), EvExists canvasPath])) \<and>
         (validateContent d (ensureCanvasExtension d (ca_filename args)) (ca_content args) = Inr v \<and>
          files w canvasPath = Some old \<longrightarrow>
          (case createCanvas d args vaultPath w of (r, w') \<Rightarrow>
             (\<exists>e. r = Inl e) \<and> files w' = files w)) \<and>
         (\<not> contentRefine d (ca_content args) \<longrightarrow>
          (\<exists>m. createCanvas d args vaultPath w = (Inl (McpError InvalidParams m), w))) \<and>
         (case createCanvas d args vaultPath w of (r, w') \<Rightarrow>
            \<exists>evs. trace w' = trace w @ evs \<and>
              set evs \<subseteq> {EvMkdir (pathDirname d canvasPath), EvExists canvasPath,
                          EvWriteFile canvasPath (ca_content args)})"
  apply (intro conjI impI)
  subgoal using assms by (elim conjE) (rule createCanvas_exists)
  subgoal using assms by (elim conjE) (rule createCanvas_exists_fails)
  subgoal using assms by (rule createCanvas_invalid)
  subgoal using assms(2) by (rule createCanvas_trace)
  done

text \<open>
  Creating \<open>board\<close> in the sample vault, where \<open>/vault/board.canvas\<close> exists: refused
  with AlreadyExists after the directory creation and the existence check; with the
  payload \<open>{"foo":1}\<close>: refused with InvalidParams, the world untouched.
\<close>

theorem create_canvas_refuses_existing_target_witness:
  "(case createCanvas sampleDeps
           \<lparr>ca_filename = ''board'', ca_content = emptyCanvasJson, ca_folder = None\<rparr>
           ''/vault'' (sampleWorld []) of
      (r, w') \<Rightarrow>
        r = Inl (McpError AlreadyExists ''/vault/board.canvas'') \<and>
        files w' ''/vault/board.canvas'' = Some ''{}'' \<and>
        trace w' = [EvMkdir ''/vault'', EvExists ''/vault/board.canvas'']) \<and>
   (\<exists>m. createCanvas sampleDeps
           \<lparr>ca_filename = ''board'', ca_content = unknownKeyJson, ca_folder = None\<rparr>
           ''/vault'' (sampleWorld []) = (Inl (McpError InvalidParams m), sampleWorld []))"
proof -
  have g: "validateVaultPath sampleDeps ''/vault'' ''/vault/board.canvas'' = None"
    by (simp add: sampleDeps_sel)
  have p1: "''/vault/board.canvas'' =
      resolvePath sampleDeps ''/vault''
        (ca_folder \<lparr>ca_filename = ''board'', ca_content = emptyCanvasJson, ca_folder = None\<rparr>)
        (ensureCanvasExtension sampleDeps
          (ca_filename \<lparr>ca_filename = ''board'', ca_content = emptyCanvasJson, ca_folder = None\<rparr>))"
    by (simp add: sample_defs)
  have p2: "''/vault/board.canvas'' =
      resolvePath sampleDeps ''/vault''
        (ca_folder \<lparr>ca_filename = ''board'', ca_content = unknownKeyJson, ca_folder = None\<rparr>)
        (ensureCanvasExtension sampleDeps
          (ca_filename \<lparr>ca_filename = ''board'', ca_content = unknownKeyJson, ca_folder = None\<rparr>))"
    by (simp add: sample_defs)
  have h: "validateContent sampleDeps
        (ensureCanvasExtension sampleDeps
          (ca_filename \<lparr>ca_filename = ''board'', ca_content = emptyCanvasJson, ca_folder = None\<rparr>))
        (ca_content \<lparr>ca_filename = ''board'', ca_content = emptyCanvasJson, ca_folder = None\<rparr>) =
        Inr (JObj [(''nodes'', JArr []), (''edges'', JArr [])]) \<and>
      files (sampleWorld []) ''/vault/board.canvas'' = Some ''{}'' \<and>
      faults (sampleWorld []) 0 = Ok"
    by (simp add: sample_defs sample_emptyCanvas_valid)
  have n: "\<not> contentRefine sampleDeps
        (ca_content \<lparr>ca_filename = ''board'', ca_content = unknownKeyJson, ca_folder = None\<rparr>)"
    by (simp add: contentRefine_def sample_unknownKey_parse safeParse_success_def
          sample_unknownKey_issues)
  from create_canvas_refuses_existing_target[OF g p1, THEN conjunct1, rule_format, OF h]
  have a: "case createCanvas sampleDeps
           \<lparr>ca_filename = ''board'', ca_content = emptyCanvasJson, ca_folder = None\<rparr>
           ''/vault'' (sampleWorld []) of
      (r, w') \<Rightarrow>
        r = Inl (McpError AlreadyExists ''/vault/board.canvas'') \<and>
        files w' ''/vault/board.canvas'' = Some ''{}'' \<and>
        trace w' = [EvMkdir ''/vault'', EvExists ''/vault/board.canvas'']"
    by (auto simp: createCanvasExistsError_def sample_defs sampleDeps_sel posixDirname_def
          split: prod.splits)
  from create_canvas_refuses_existing_target[OF g p2, THEN conjunct2, THEN conjunct2,
         THEN conjunct1, rule_format, OF n, of "sampleWorld []"]
  have b: "\<exists>m. createCanvas sampleDeps
           \<lparr>ca_filename = ''board'', ca_content = unknownKeyJson, ca_folder = None\<rparr>
           ''/vault'' (sampleWorld []) = (Inl (McpError InvalidParams m), sampleWorld [])" .
  from a b show ?thesis by blast
qed

section \<open>read-canvas and the schema\<close>

lemma readCanvas_returns_parsed:
  assumes guard: "validateVaultPath d vaultPath fullPath = None"
    and fp: "fullPath = resolvePath d vaultPath folder (ensureCanvasExtension d filename)"
    and ex: "files w fullPath = Some raw"
    and rd: "faults w 0 = Ok"
    and parsed: "jsonParse d raw = Inr v"
  shows "case readCanvas d vaultPath filename folder w of (r, w') \<Rightarrow>
           r = Inr (\<lparr>r_success = True, r_message = ''Canvas read and parsed successfully'',
                     r_path = fullPath, r_operation = ''edit''\<rparr>, v) \<and>
           files w' = files w"
  using guard ex rd parsed fp[symmetric]
  by (simp add: readCanvas_def Let_def io_defs)

lemma readCanvas_rejects_syntax:
  assumes guard: "validateVaultPath d vaultPath fullPath = None"
    and fp: "fullPath = resolvePath d vaultPath folder (ensureCanvasExtension d filename)"
    and ex: "files w fullPath = Some raw"
    and rd: "faults w 0 = Ok"
    and parsed: "jsonParse d raw = Inl syntaxError"
  shows "fst (readCanvas d vaultPath filename folder w) =
           Inl (createInvalidJsonError filename syntaxError)"
  using guard ex rd parsed fp[symmetric]
  by (simp add: readCanvas_def Let_def io_defs isMcpError_def createInvalidJsonError_def)

text \<open>
  Claim C3, as amended. A read-canvas call on an existing file that can be read returns
  the value \<open>JSON.parse\<close> gives for its content, as a success, whatever that value is:
  readCanvas never applies the canvas schema. It rejects the content only when
  \<open>JSON.parse\<close> throws, with the invalid-JSON error.
\<close>

theorem read_canvas_returns_any_valid_json:
  assumes "validateVaultPath d vaultPath fullPath = None"
    and "fullPath = resolvePath d vaultPath folder (ensureCanvasExtension d filename)"
    and "files w fullPath = Some raw"
    and "faults w 0 = Ok"
  shows "(jsonParse d raw = Inr v \<longrightarrow>
          (case readCanvas d vaultPath filename folder w of (r, w') \<Rightarrow>
             r = Inr (\<lparr>r_success = True, r_message = ''Canvas read and parsed successfully'',
                       r_path = fullPath, r_operation = ''edit''\<rparr>, v) \<and>
             files w' = files w)) \<and>
         (jsonParse d raw = Inl syntaxError \<longrightarrow>
          fst (readCanvas d vaultPath filename folder w) =
            Inl (createInvalidJsonError filename syntaxError))"
  apply (intro conjI impI)
  subgoal using assms by (rule readCanvas_returns_parsed)
  subgoal using assms by (rule readCanvas_rejects_syntax)
  done

text \<open>
  Reading \<open>board\<close> in the sample vault gives the parsed \<open>{}\<close>; reading a file that
  holds markdown gives the invalid-JSON error.
\<close>

theorem read_canvas_returns_any_valid_json_witness:
  "(case readCanvas sampleDeps ''/vault'' ''board'' None (sampleWorld []) of (r, w') \<Rightarrow>
      r = Inr (\<lparr>r_success = True, r_message = ''Canvas read and parsed successfully'',
                r_path = ''/vault/board.canvas'', r_operation = ''edit''\<rparr>, JObj []) \<and>
      files w' = files (sampleWorld [])) \<and>
   fst (readCanvas sampleDeps ''/vault'' ''daily.md'' None
          ((sampleWorld [])\<lparr>files := [''/vault/daily.md.canvas'' \<mapsto> ''# Today'']\<rparr>)) =
     Inl (McpError InvalidParams ''daily.md: Unexpected token'')"
proof -
  have g: "validateVaultPath sampleDeps ''/vault'' ''/vault/board.canvas'' = None"
    and g2: "validateVaultPath sampleDeps ''/vault'' ''/vault/daily.md.canvas'' = None"
    by (simp_all add: sampleDeps_sel)
  have p: "''/vault/board.canvas'' =
      resolvePath sampleDeps ''/vault'' None (ensureCanvasExtension sampleDeps ''board'')"
    and p2: "''/vault/daily.md.canvas'' =
      resolvePath sampleDeps ''/vault'' None (ensureCanvasExtension sampleDeps ''daily.md'')"
    by (simp_all add: sample_defs)
  have f: "files (sampleWorld []) ''/vault/board.canvas'' = Some ''{}''"
    and f2: "files ((sampleWorld [])\<lparr>files := [''/vault/daily.md.canvas'' \<mapsto> ''# Today'']\<rparr>)
               ''/vault/daily.md.canvas'' = Some ''# Today''"
    by (simp_all add: sample_defs)
  have o: "faults (sampleWorld []) 0 = Ok"
    and o2: "faults ((sampleWorld [])\<lparr>files := [''/vault/daily.md.canvas'' \<mapsto> ''# Today'']\<rparr>) 0 = Ok"
    by (simp_all add: sample_defs)
  have j: "jsonParse sampleDeps ''{}'' = Inr (JObj [])"
    and j2: "jsonParse sampleDeps ''# Today'' = Inl ''Unexpected token''"
    by (simp_all add: sampleDeps_sel sampleParse_def)
  from read_canvas_returns_any_valid_json[OF g p f o, THEN conjunct1, rule_format, OF j]
  have a: "case readCanvas sampleDeps ''/vault'' ''board'' None (sampleWorld []) of (r, w') \<Rightarrow>
      r = Inr (\<lparr>r_success = True, r_message = ''Canvas read and parsed successfully'',
                r_path = ''/vault/board.canvas'', r_operation = ''edit''\<rparr>, JObj []) \<and>
      files w' = files (sampleWorld [])" .
  from read_canvas_returns_any_valid_json[OF g2 p2 f2 o2, THEN conjunct2, rule_format, OF j2]
  have b: "fst (readCanvas sampleDeps ''/vault'' ''daily.md'' None
          ((sampleWorld [])\<lparr>files := [''/vault/daily.md.canvas'' \<mapsto> ''# Today'']\<rparr>)) =
     Inl (McpError InvalidParams ''daily.md: Unexpected token'')"
    by (simp add: createInvalidJsonError_def)
  from a b show ?thesis by blast
qed

text \<open>
  Claim C3 as stated fails: \<open>/vault/board.canvas\<close> holds \<open>{"foo":1}\<close>, valid JSON that
  the canvas schema rejects (an unknown top-level key), and read-canvas returns it as a
  successful result.
\<close>

theorem read_canvas_schema_counterexample:
  "files unknownKeyWorld ''/vault/board.canvas'' = Some unknownKeyJson \<and>
   jsonParse sampleDeps unknownKeyJson = Inr (JObj [(''foo'', JNum 1)]) \<and>
   canvasSchema (isUrl sampleDeps) [] (Some (JObj [(''foo'', JNum 1)])) =
     [Issue [] (unrecognized_keys [''foo''])
        (CustomMsg ''Canvas object must only contain 'nodes' and 'edges' properties'')] \<and>
   fst (readCanvas sampleDeps ''/vault'' ''board'' None unknownKeyWorld) =
     Inr (\<lparr>r_success = True, r_message = ''Canvas read and parsed successfully'',
              r_path = ''/vault/board.canvas'', r_operation = ''edit''\<rparr>,
          JObj [(''foo'', JNum 1)])"
proof -
  have g: "validateVaultPath sampleDeps ''/vault'' ''/vault/board.canvas'' = None"
    by (simp add: sampleDeps_sel)
  have p: "''/vault/board.canvas'' =
      resolvePath sampleDeps ''/vault'' None (ensureCanvasExtension sampleDeps ''board'')"
    by (simp add: sample_defs)
  have f: "files unknownKeyWorld ''/vault/board.canvas'' = Some unknownKeyJson"
    by (simp add: unknownKeyWorld_def)
  have o: "faults unknownKeyWorld 0 = Ok"
    by (simp add: unknownKeyWorld_def sampleWorld_def schedule_def)
  from readCanvas_returns_parsed[OF g p f o sample_unknownKey_parse]
  have "fst (readCanvas sampleDeps ''/vault'' ''board'' None unknownKeyWorld) =
     Inr (\<lparr>r_success = True, r_message = ''Canvas read and parsed successfully'',
              r_path = ''/vault/board.canvas'', r_operation = ''edit''\<rparr>,
          JObj [(''foo'', JNum 1)])"
    by (simp split: prod.splits)
  with f sample_unknownKey_parse sample_unknownKey_issues show ?thesis by blast
qed


section \<open>Writing a canvas and reading it back\<close>

lemma createCanvas_persists:
  assumes "createCanvas d args vaultPath w = (Inr r, w1)"
  shows "files w1 (r_path r) = Some (ca_content args) \<and>
         r_path r = resolvePath d vaultPath (ca_folder args)
                      (ensureCanvasExtension d (ca_filename args)) \<and>
         (\<exists>v. jsonParse d (ca_content args) = Inr v)"
  using assms
  by (auto simp: createCanvas_def Let_def io_defs isMcpError_def validateContent_def
        split: tool_splits)

lemma editCanvas_persists:
  assumes "editCanvas d vaultPath filename content folder timestamp w = (Inr r, w1)"
  shows "files w1 (r_path r) = Some content \<and>
         r_path r = resolvePath d vaultPath folder (ensureCanvasExtension d filename) \<and>
         (\<exists>v. jsonParse d content = Inr v)"
proof -
  have ne: "backupPathOf (resolvePath d vaultPath folder (ensureCanvasExtension d filename)) timestamp
              \<noteq> resolvePath d vaultPath folder (ensureCanvasExtension d filename)"
    by (rule backupPathOf_neq)
  from assms ne show ?thesis
    by (auto simp: editCanvas_def Let_def io_defs isMcpError_def validateContent_def
          split: tool_splits)
qed

lemma readCanvasTool_response:
  assumes guard: "validateVaultPath d vaultPath fullPath = None"
    and fp: "fullPath = resolvePath d vaultPath folder (ensureCanvasExtension d filename)"
    and ex: "files w fullPath = Some raw"
    and rd: "faults w 0 = Ok"
    and parsed: "jsonParse d raw = Inr v"
  shows "fst (readCanvasTool d vaultPath filename folder w) =
           Inr (formatFileResult d
                  \<lparr>r_success = True, r_message = ''Canvas read and parsed successfully'',
                    r_path = fullPath, r_operation = ''edit''\<rparr> @
                [CHR 0x0A, CHR 0x0A] @ ''Canvas Content:'' @ [CHR 0x0A] @ jsonStringify2 d v)"
  using readCanvas_returns_parsed[OF assms]
  by (auto simp: readCanvasTool_def io_bind_def io_return_def split: prod.splits)

text \<open>
  Claim C4, as amended. When create-canvas, or edit-canvas, succeeds with content \<open>s\<close>,
  the file at the returned path holds exactly \<open>s\<close>, the validated string itself, and
  \<open>s\<close> is valid JSON. Reading a canvas whose file holds \<open>s\<close> does not give \<open>s\<close> back:
  readCanvas returns the value \<open>JSON.parse(s)\<close>, and the response of the tool is the
  status line, a heading and \<open>JSON.stringify\<close> of that value with an indentation of two.
\<close>

theorem canvas_persisted_verbatim_and_read_back_parsed:
  "(createCanvas d args vaultPath w = (Inr r, w1) \<longrightarrow>
      files w1 (r_path r) = Some (ca_content args) \<and>
      r_path r = resolvePath d vaultPath (ca_folder args)
                   (ensureCanvasExtension d (ca_filename args)) \<and>
      (\<exists>v. jsonParse d (ca_content args) = Inr v)) \<and>
   (editCanvas d vaultPath filename content folder timestamp w = (Inr r, w1) \<longrightarrow>
      files w1 (r_path r) = Some content \<and>
      r_path r = resolvePath d vaultPath folder (ensureCanvasExtension d filename) \<and>
      (\<exists>v. jsonParse d content = Inr v)) \<and>
   (validateVaultPath d vaultPath fullPath = None \<and>
    fullPath = resolvePath d vaultPath folder (ensureCanvasExtension d filename) \<and>
    files w1 fullPath = Some s \<and> faults w1 0 = Ok \<and> jsonParse d s = Inr v \<longrightarrow>
      (case readCanvas d vaultPath filename folder w1 of (res, w2) \<Rightarrow>
         res = Inr (\<lparr>r_success = True, r_message = ''Canvas read and parsed successfully'',
                     r_path = fullPath, r_operation = ''edit''\<rparr>, v) \<and>
         files w2 = files w1) \<and>
      fst (readCanvasTool d vaultPath filename folder w1) =
        Inr (formatFileResult d
               \<lparr>r_success = True, r_message = ''Canvas read and parsed successfully'',
                 r_path = fullPath, r_operation = ''edit''\<rparr> @
             [CHR 0x0A, CHR 0x0A] @ ''Canvas Content:'' @ [CHR 0x0A] @ jsonStringify2 d v))"
  apply (intro conjI impI)
  subgoal by (rule createCanvas_persists[THEN conjunct1])
  subgoal by (rule createCanvas_persists[THEN conjunct2, THEN conjunct1])
  subgoal by (rule createCanvas_persists[THEN conjunct2, THEN conjunct2])
  subgoal by (rule editCanvas_persists[THEN conjunct1])
  subgoal by (rule editCanvas_persists[THEN conjunct2, THEN conjunct1])
  subgoal by (rule editCanvas_persists[THEN conjunct2, THEN conjunct2])
  subgoal by (elim conjE) (rule readCanvas_returns_parsed)
  subgoal by (elim conjE) (rule readCanvasTool_response)
  done


text \<open>
  Creating \<open>new\<close> with the empty canvas in the sample vault and reading it back.
\<close>

lemma sample_new_valid:
  "validateContent sampleDeps ''new.canvas'' emptyCanvasJson =
     Inr (JObj [(''nodes'', JArr []), (''edges'', JArr [])])"
  by code_simp

lemma sample_create_run:
  "createCanvas sampleDeps newCanvasArgs ''/vault'' (sampleWorld []) =
     (Inr \<lparr>r_success = True, r_message = ''Canvas created successfully'',
           r_path = ''/vault/new.canvas'', r_operation = ''create''\<rparr>, createdWorld)"
proof -
  have "fst (createCanvas sampleDeps newCanvasArgs ''/vault'' (sampleWorld [])) =
     Inr \<lparr>r_success = True, r_message = ''Canvas created successfully'',
           r_path = ''/vault/new.canvas'', r_operation = ''create''\<rparr>"
    by (simp add: createCanvas_def newCanvasArgs_def Let_def io_defs sample_defs sample_new_valid)
  then show ?thesis
    unfolding createdWorld_def by (metis prod.collapse)
qed

lemma sample_emptyCanvas_parse:
  "jsonParse sampleDeps emptyCanvasJson = Inr (JObj [(''nodes'', JArr []), (''edges'', JArr [])])"
  by (simp add: sampleDeps_sel sampleParse_def emptyCanvasJson_def)

lemma sample_created_faults: "faults createdWorld 0 = Ok"
  by (simp add: createdWorld_def createCanvas_def newCanvasArgs_def Let_def io_defs sample_defs
        sample_new_valid)

theorem canvas_persisted_verbatim_and_read_back_parsed_witness:
  "files createdWorld ''/vault/new.canvas'' = Some emptyCanvasJson \<and>
   fst (readCanvas sampleDeps ''/vault'' ''new'' None createdWorld) =
     Inr (\<lparr>r_success = True, r_message = ''Canvas read and parsed successfully'',
              r_path = ''/vault/new.canvas'', r_operation = ''edit''\<rparr>,
          JObj [(''nodes'', JArr []), (''edges'', JArr [])])"
proof -
  note main = canvas_persisted_verbatim_and_read_back_parsed
  from main[THEN conjunct1, rule_format, OF sample_create_run]
  have a: "files createdWorld ''/vault/new.canvas'' = Some emptyCanvasJson"
    by (simp add: newCanvasArgs_def sample_defs)
  have h: "validateVaultPath sampleDeps ''/vault'' ''/vault/new.canvas'' = None \<and>
      ''/vault/new.canvas'' =
        resolvePath sampleDeps ''/vault'' None (ensureCanvasExtension sampleDeps ''new'') \<and>
      files createdWorld ''/vault/new.canvas'' = Some emptyCanvasJson \<and>
      faults createdWorld 0 = Ok \<and>
      jsonParse sampleDeps emptyCanvasJson = Inr (JObj [(''nodes'', JArr []), (''edges'', JArr [])])"
    using a sample_created_faults sample_emptyCanvas_parse by (simp add: sample_defs)
  from main[THEN conjunct2, THEN conjunct2, rule_format, OF h, THEN conjunct1]
  have b: "fst (readCanvas sampleDeps ''/vault'' ''new'' None createdWorld) =
     Inr (\<lparr>r_success = True, r_message = ''Canvas read and parsed successfully'',
              r_path = ''/vault/new.canvas'', r_operation = ''edit''\<rparr>,
          JObj [(''nodes'', JArr []), (''edges'', JArr [])])"
    by (simp split: prod.splits)
  from a b show ?thesis by blast
qed

text \<open>
  Claim C4 as stated fails: the canvas is created with the 23 characters
  \<open>{"nodes":[],"edges":[]}\<close>, and the content read-canvas answers with is the same value
  printed over four lines.
\<close>

theorem read_back_is_reserialized_counterexample:
  "fst (createCanvas sampleDeps newCanvasArgs ''/vault'' (sampleWorld [])) =
     Inr \<lparr>r_success = True, r_message = ''Canvas created successfully'',
           r_path = ''/vault/new.canvas'', r_operation = ''create''\<rparr> \<and>
   ca_content newCanvasArgs =
     [CHR ''{'', CHR 0x22] @ ''nodes'' @ [CHR 0x22] @ '':[],'' @ [CHR 0x22] @ ''edges'' @
     [CHR 0x22] @ '':[]}'' \<and>
   fst (readCanvasTool sampleDeps ''/vault'' ''new'' None createdWorld) =
     Inr (''Canvas read and parsed successfully'' @ [CHR 0x0A, CHR 0x0A] @
          ''Canvas Content:'' @ [CHR 0x0A] @
          ''{'' @ [CHR 0x0A] @
          ''  '' @ [CHR 0x22] @ ''nodes'' @ [CHR 0x22] @ '': [],'' @ [CHR 0x0A] @
          ''  '' @ [CHR 0x22] @ ''edges'' @ [CHR 0x22] @ '': []'' @ [CHR 0x0A] @
          ''}'') \<and>
   fst (readCanvasTool sampleDeps ''/vault'' ''new'' None createdWorld) \<noteq>
     Inr (ca_content newCanvasArgs)"
proof -
  have g: "validateVaultPath sampleDeps ''/vault'' ''/vault/new.canvas'' = None"
    by (simp add: sampleDeps_sel)
  have p: "''/vault/new.canvas'' =
      resolvePath sampleDeps ''/vault'' None (ensureCanvasExtension sampleDeps ''new'')"
    by (simp add: sample_defs)
  have f: "files createdWorld ''/vault/new.canvas'' = Some emptyCanvasJson"
    using createCanvas_persists[OF sample_create_run] by (simp add: newCanvasArgs_def sample_defs)
  from readCanvasTool_response[OF g p f sample_created_faults sample_emptyCanvas_parse]
  have "fst (readCanvasTool sampleDeps ''/vault'' ''new'' None createdWorld) =
     Inr (''Canvas read and parsed successfully'' @ [CHR 0x0A, CHR 0x0A] @
          ''Canvas Content:'' @ [CHR 0x0A] @
          ''{'' @ [CHR 0x0A] @
          ''  '' @ [CHR 0x22] @ ''nodes'' @ [CHR 0x22] @ '': [],'' @ [CHR 0x0A] @
          ''  '' @ [CHR 0x22] @ ''edges'' @ [CHR 0x22] @ '': []'' @ [CHR 0x0A] @
          ''}'')"
    by (simp add: sampleDeps_sel sampleStringify_def quoted_def)
  then show ?thesis
    using sample_create_run by (simp add: newCanvasArgs_def emptyCanvasJson_def)
qed

section \<open>delete-canvas: the move to the trash\<close>









section \<open>search-vault: warnings and failures\<close>

lemma readAt_eq:
  "readAt w i file =
     (case faults w i of
        Ok \<Rightarrow> (case files w file of None \<Rightarrow> Inl (FsError ''ENOENT'') | Some c \<Rightarrow> Inr c)
      | Fail m \<Rightarrow> Inl (FsError m)
      | FailPartial m c \<Rightarrow> Inl (FsError m))"
  by (simp add: readAt_def fs_readFile_def next_outcome_def record_event_def
           split: outcome.splits option.splits)

lemma readStep:
  "io_catch (io_bind (fs_readFile file) (\<lambda>content. io_return (g content)))
            (\<lambda>err. io_bind (console_error_with line err) (\<lambda>_. io_return results)) w =
     (Inr (case readAt w 0 file of Inl err \<Rightarrow> results | Inr content \<Rightarrow> g content),
      w\<lparr>faults := (\<lambda>n. faults w (Suc n)),
        trace := trace w @ EvReadFile file #
                 (case readAt w 0 file of Inl err \<Rightarrow> [EvConsoleErrorWith line err] | Inr content \<Rightarrow> [])\<rparr>)"
  by (simp add: readAt_eq io_defs split: outcome.splits option.splits)

lemma searchContentFiles_run:
  "searchContentFiles d vaultPath query options found results w =
     (Inr (results @
           concat (map (\<lambda>(i, file).
                     case readAt w i file of
                       Inl err \<Rightarrow> []
                     | Inr content \<Rightarrow>
                         if fileMatches d query options content \<noteq> []
                         then [\<lparr>sr_file = pathRelative d vaultPath file,
                                 sr_matches = fileMatches d query options content\<rparr>]
                         else [])
                   (enumerate 0 found))),
      w\<lparr>faults := (\<lambda>n. faults w (n + length found)),
        trace := trace w @
                 concat (map (\<lambda>(i, file).
                           EvReadFile file #
                           (case readAt w i file of
                              Inl err \<Rightarrow> [EvConsoleErrorWith (''Error reading file '' @ file @ '':'') err]
                            | Inr content \<Rightarrow> []))
                         (enumerate 0 found))\<rparr>)"
proof (induction found arbitrary: results w)
  case Nil
  show ?case by (simp add: io_return_def)
next
  case (Cons p rest)
  let ?w1 = "w\<lparr>faults := (\<lambda>n. faults w (Suc n)),
        trace := trace w @ EvReadFile p #
                 (case readAt w 0 p of
                    Inl err \<Rightarrow> [EvConsoleErrorWith (''Error reading file '' @ p @ '':'') err]
                  | Inr content \<Rightarrow> [])\<rparr>"
  have shift: "readAt ?w1 i q = readAt w (Suc i) q" for i q
    by (simp add: readAt_eq split: outcome.splits)
  show ?case
    apply (simp only: searchContentFiles.simps Let_def)
    apply (subst io_bind_def)
    apply (simp only: readStep prod.case sum.case)
    apply (simp only: Cons.IH)
    apply (simp add: shift enumerate_Suc_eq[of 0] comp_def case_prod_beta
             split: sum.splits)
    done
qed


lemma searchContent_listed:
  assumes "searchDirOf d vaultPath options = Inr dir"
    and "getAllMarkdownFiles d vaultPath dir w = (Inr found, w0)"
  shows "searchContent d vaultPath query options w =
           searchContentFiles d vaultPath query options found [] w0"
  using assms
  by (simp add: searchContent_def io_bind_def io_catch_def io_of_def io_return_def
        searchContentFiles_run)

lemma searchContent_listing_fails:
  assumes "searchDirOf d vaultPath options = Inr dir"
    and "getAllMarkdownFiles d vaultPath dir w = (Inl e, w0)"
  shows "searchContent d vaultPath query options w =
           (Inl (if isMcpError e then e else handleFsError d e ''search content''), w0)"
  using assms
  by (simp add: searchContent_def io_bind_def io_catch_def io_of_def io_return_def io_throw_def)

lemma subSearch_run:
  "search w = (r, w1) \<Longrightarrow>
   subSearch d label search w =
     (Inr (case r of Inl e \<Rightarrow> [] | Inr found \<Rightarrow> found,
           case r of
             Inl e \<Rightarrow> [(if isMcpError e then label @ '' search error: ''
                         else label @ '' search failed: '') @ errorMessage d e]
           | Inr found \<Rightarrow> []), w1)"
  by (cases r) (simp_all add: subSearch_def io_bind_def io_catch_def io_return_def)

lemma subSearch_skipped:
  "io_return [] w = (r, w1) \<Longrightarrow>
   io_return ([], []) w =
     (Inr (case r of Inl e \<Rightarrow> [] | Inr found \<Rightarrow> found,
           case r of Inl e \<Rightarrow> [line e] | Inr found \<Rightarrow> []), w1)"
  by (auto simp: io_return_def)

lemma searchVault_run:
  assumes s1: "(if so_searchType options = Filename \<or> so_searchType options = Both
                then searchFilenames d (normalizePath d vaultPath) query options
                else io_return []) w = (r1, w1)"
    and s2: "(if so_searchType options = Content \<or> so_searchType options = Both
              then searchContent d (normalizePath d vaultPath) query options
              else io_return []) w1 = (r2, w2)"
  shows "searchVault d vaultPath query options w =
     (let results = (case r1 of Inl e \<Rightarrow> [] | Inr found \<Rightarrow> found) @
                    (case r2 of Inl e \<Rightarrow> [] | Inr found \<Rightarrow> found);
          errors = (case r1 of
                      Inl e \<Rightarrow> [(if isMcpError e then ''Filename search error: ''
                                  else ''Filename search failed: '') @ errorMessage d e]
                    | Inr found \<Rightarrow> []) @
                   (case r2 of
                      Inl e \<Rightarrow> [(if isMcpError e then ''Content search error: ''
                                  else ''Content search failed: '') @ errorMessage d e]
                    | Inr found \<Rightarrow> [])
      in if results \<noteq> [] \<and> errors \<noteq> [] then
           (Inr \<lparr>s_success = True,
                 s_message = ''Search completed with warnings:'' @ [CHR 0x0A] @
                             joinWith [CHR 0x0A] errors,
                 s_results = results,
                 s_totalMatches = sum_list (map (\<lambda>r. length (sr_matches r)) results),
                 s_matchedFiles = length results\<rparr>, w2)
         else if results = [] \<and> errors \<noteq> [] then
           (Inl (McpError InternalError
                   (''Search failed:'' @ [CHR 0x0A] @ joinWith [CHR 0x0A] errors)), w2)
         else
           (Inr \<lparr>s_success = True, s_message = ''Search completed successfully'',
                 s_results = results,
                 s_totalMatches = sum_list (map (\<lambda>r. length (sr_matches r)) results),
                 s_matchedFiles = length results\<rparr>, w2))"
proof -
  let ?e1 = "case r1 of
               Inl e \<Rightarrow> [(if isMcpError e then ''Filename'' @ '' search error: ''
                           else ''Filename'' @ '' search failed: '') @ errorMessage d e]
             | Inr found \<Rightarrow> []"
  let ?e2 = "case r2 of
               Inl e \<Rightarrow> [(if isMcpError e then ''Content'' @ '' search error: ''
                           else ''Content'' @ '' search failed: '') @ errorMessage d e]
             | Inr found \<Rightarrow> []"
  have a1: "(if so_searchType options = Filename \<or> so_searchType options = Both
             then subSearch d ''Filename'' (searchFilenames d (normalizePath d vaultPath) query options)
             else io_return ([], [])) w =
            (Inr (case r1 of Inl e \<Rightarrow> [] | Inr found \<Rightarrow> found, ?e1), w1)"
    using s1 subSearch_run[of _ w r1 w1 d "''Filename''"] subSearch_skipped[of w r1 w1]
    by (cases "so_searchType options = Filename \<or> so_searchType options = Both") simp_all
  have a2: "(if so_searchType options = Content \<or> so_searchType options = Both
             then subSearch d ''Content'' (searchContent d (normalizePath d vaultPath) query options)
             else io_return ([], [])) w1 =
            (Inr (case r2 of Inl e \<Rightarrow> [] | Inr found \<Rightarrow> found, ?e2), w2)"
    using s2 subSearch_run[of _ w1 r2 w2 d "''Content''"] subSearch_skipped[of w1 r2 w2]
    by (cases "so_searchType options = Content \<or> so_searchType options = Both") simp_all
  show ?thesis
    unfolding searchVault_def Let_def
    apply (simp only: io_bind_def io_catch_def a1 a2 prod.case sum.case)
    apply (cases r1; cases r2; simp add: io_return_def io_throw_def isMcpError_def)
    done
qed

lemma searchVault_fails_iff:
  assumes s1: "(if so_searchType options = Filename \<or> so_searchType options = Both
                then searchFilenames d (normalizePath d vaultPath) query options
                else io_return []) w = (r1, w1)"
    and s2: "(if so_searchType options = Content \<or> so_searchType options = Both
              then searchContent d (normalizePath d vaultPath) query options
              else io_return []) w1 = (r2, w2)"
  shows "isl (fst (searchVault d vaultPath query options w)) \<longleftrightarrow>
           (case r1 of Inl e \<Rightarrow> [] | Inr found \<Rightarrow> found) @
           (case r2 of Inl e \<Rightarrow> [] | Inr found \<Rightarrow> found) = [] \<and> (isl r1 \<or> isl r2)"
  unfolding searchVault_run[OF s1 s2] Let_def
  by (cases r1; cases r2) auto


lemma searchFilenames_listing_fails:
  assumes "searchDirOf d vaultPath options = Inr dir"
    and "getAllMarkdownFiles d vaultPath dir w = (Inl e, w0)"
  shows "searchFilenames d vaultPath query options w =
           (Inl (if isMcpError e then e else handleFsError d e ''search filenames''), w0)"
  using assms
  by (simp add: searchFilenames_def io_bind_def io_catch_def io_of_def io_return_def io_throw_def)

lemma searchFilenames_listed:
  assumes "searchDirOf d vaultPath options = Inr dir"
    and "getAllMarkdownFiles d vaultPath dir w = (Inr found, w0)"
  shows "searchFilenames d vaultPath query options w =
           (Inr (map (\<lambda>relativePath.
                        \<lparr>sr_file = relativePath,
                         sr_matches = [\<lparr>m_line = 0, m_text = ''Filename match: '' @ relativePath\<rparr>]\<rparr>)
                     (filter (\<lambda>relativePath.
                                jsIncludes (if so_caseSensitive options then relativePath
                                            else toLowerCase d relativePath)
                                           (if so_caseSensitive options then query
                                            else toLowerCase d query))
                             (map (pathRelative d vaultPath) found))), w0)"
  using assms
  by (simp add: searchFilenames_def io_bind_def io_catch_def io_of_def io_return_def Let_def)

lemma searchContent_refused:
  assumes "searchDirOf d vaultPath options = Inl e"
  shows "searchContent d vaultPath query options w =
           (Inl (if isMcpError e then e else handleFsError d e ''search content''), w)"
  using assms
  by (simp add: searchContent_def io_bind_def io_catch_def io_of_def io_return_def io_throw_def)

lemma searchFilenames_refused:
  assumes "searchDirOf d vaultPath options = Inl e"
  shows "searchFilenames d vaultPath query options w =
           (Inl (if isMcpError e then e else handleFsError d e ''search filenames''), w)"
  using assms
  by (simp add: searchFilenames_def io_bind_def io_catch_def io_of_def io_return_def io_throw_def)

text \<open>
  Claim C9, as amended. In a search-vault call each sub-search that runs (filename,
  content) either returns its results or throws. The results of the call are those of
  the sub-searches that returned, and each sub-search that threw puts one line on the
  error list, made of its label and the message of its error. With at least one result
  and at least one such line the call succeeds and its message lists the lines as
  warnings; it fails, with InternalError and the same lines, exactly when there is no
  result and at least one sub-search threw; otherwise it succeeds with the plain
  message. A file that cannot be read puts no line on the error list: the loop of the
  content search over the files always returns, with the matches of the files that
  could be read, in order, and one \<open>console.error\<close> for each file that could not; the
  content search is that loop when the listing of the files returns. A sub-search
  throws when its search directory is refused or the listing of the files throws, and
  the filename search returns the matching names when the listing returns.
\<close>

theorem search_vault_warns_on_subsearch_errors_only:
  "((if so_searchType options = Filename \<or> so_searchType options = Both
     then searchFilenames d (normalizePath d vaultPath) query options
     else io_return []) w = (r1, w1) \<and>
    (if so_searchType options = Content \<or> so_searchType options = Both
     then searchContent d (normalizePath d vaultPath) query options
     else io_return []) w1 = (r2, w2) \<longrightarrow>
    searchVault d vaultPath query options w =
     (let results = (case r1 of Inl e \<Rightarrow> [] | Inr found \<Rightarrow> found) @
                    (case r2 of Inl e \<Rightarrow> [] | Inr found \<Rightarrow> found);
          errors = (case r1 of
                      Inl e \<Rightarrow> [(if isMcpError e then ''Filename search error: ''
                                  else ''Filename search failed: '') @ errorMessage d e]
                    | Inr found \<Rightarrow> []) @
                   (case r2 of
                      Inl e \<Rightarrow> [(if isMcpError e then ''Content search error: ''
                                  else ''Content search failed: '') @ errorMessage d e]
                    | Inr found \<Rightarrow> [])
      in if results \<noteq> [] \<and> errors \<noteq> [] then
           (Inr \<lparr>s_success = True,
                 s_message = ''Search completed with warnings:'' @ [CHR 0x0A] @
                             joinWith [CHR 0x0A] errors,
                 s_results = results,
                 s_totalMatches = sum_list (map (\<lambda>r. length (sr_matches r)) results),
                 s_matchedFiles = length results\<rparr>, w2)
         else if results = [] \<and> errors \<noteq> [] then
           (Inl (McpError InternalError
                   (''Search failed:'' @ [CHR 0x0A] @ joinWith [CHR 0x0A] errors)), w2)
         else
           (Inr \<lparr>s_success = True, s_message = ''Search completed successfully'',
                 s_results = results,
                 s_totalMatches = sum_list (map (\<lambda>r. length (sr_matches r)) results),
                 s_matchedFiles = length results\<rparr>, w2))) \<and>
   ((if so_searchType options = Filename \<or> so_searchType options = Both
     then searchFilenames d (normalizePath d vaultPath) query options
     else io_return []) w = (r1, w1) \<and>
    (if so_searchType options = Content \<or> so_searchType options = Both
     then searchContent d (normalizePath d vaultPath) query options
     else io_return []) w1 = (r2, w2) \<longrightarrow>
    (isl (fst (searchVault d vaultPath query options w)) \<longleftrightarrow>
       (case r1 of Inl e \<Rightarrow> [] | Inr found \<Rightarrow> found) @
       (case r2 of Inl e \<Rightarrow> [] | Inr found \<Rightarrow> found) = [] \<and> (isl r1 \<or> isl r2))) \<and>
   searchContentFiles d vaultPath query options found results w =
     (Inr (results @
           concat (map (\<lambda>(i, file).
                     case readAt w i file of
                       Inl err \<Rightarrow> []
                     | Inr content \<Rightarrow>
                         if fileMatches d query options content \<noteq> []
                         then [\<lparr>sr_file = pathRelative d vaultPath file,
                                 sr_matches = fileMatches d query options content\<rparr>]
                         else [])
                   (enumerate 0 found))),
      w\<lparr>faults := (\<lambda>n. faults w (n + length found)),
        trace := trace w @
                 concat (map (\<lambda>(i, file).
                           EvReadFile file #
                           (case readAt w i file of
                              Inl err \<Rightarrow> [EvConsoleErrorWith (''Error reading file '' @ file @ '':'') err]
                            | Inr content \<Rightarrow> []))
                         (enumerate 0 found))\<rparr>) \<and>
   (searchDirOf d vaultPath options = Inr dir \<and>
    getAllMarkdownFiles d vaultPath dir w = (Inr found, w0) \<longrightarrow>
    searchContent d vaultPath query options w =
      searchContentFiles d vaultPath query options found [] w0) \<and>
   (searchDirOf d vaultPath options = Inr dir \<and>
    getAllMarkdownFiles d vaultPath dir w = (Inl e, w0) \<longrightarrow>
    searchContent d vaultPath query options w =
      (Inl (if isMcpError e then e else handleFsError d e ''search content''), w0)) \<and>
   (searchDirOf d vaultPath options = Inr dir \<and>
    getAllMarkdownFiles d vaultPath dir w = (Inl e, w0) \<longrightarrow>
    searchFilenames d vaultPath query options w =
      (Inl (if isMcpError e then e else handleFsError d e ''search filenames''), w0)) \<and>
   (searchDirOf d vaultPath options = Inr dir \<and>
    getAllMarkdownFiles d vaultPath dir w = (Inr found, w0) \<longrightarrow>
    searchFilenames d vaultPath query options w =
      (Inr (map (\<lambda>relativePath.
                   \<lparr>sr_file = relativePath,
                    sr_matches = [\<lparr>m_line = 0, m_text = ''Filename match: '' @ relativePath\<rparr>]\<rparr>)
                (filter (\<lambda>relativePath.
                           jsIncludes (if so_caseSensitive options then relativePath
                                       else toLowerCase d relativePath)
                                      (if so_caseSensitive options then query
                                       else toLowerCase d query))
                        (map (pathRelative d vaultPath) found))), w0)) \<and>
   (searchDirOf d vaultPath options = Inl e \<longrightarrow>
    searchContent d vaultPath query options w =
      (Inl (if isMcpError e then e else handleFsError d e ''search content''), w)) \<and>
   (searchDirOf d vaultPath options = Inl e \<longrightarrow>
    searchFilenames d vaultPath query options w =
      (Inl (if isMcpError e then e else handleFsError d e ''search filenames''), w))"
  apply (intro conjI impI)
  subgoal by (elim conjE) (rule searchVault_run)
  subgoal by (elim conjE) (rule searchVault_fails_iff)
  subgoal by (rule searchContentFiles_run)
  subgoal by (elim conjE) (rule searchContent_listed)
  subgoal by (elim conjE) (rule searchContent_listing_fails)
  subgoal by (elim conjE) (rule searchFilenames_listing_fails)
  subgoal by (elim conjE) (rule searchFilenames_listed)
  subgoal by (rule searchContent_refused)
  subgoal by (rule searchFilenames_refused)
  done

lemma sampleCode_strings:
  "intString (sampleCode FsFailure) = ''-32603''"
  "intString (sampleCode InternalError) = ''-32603''"
  "intString (sampleCode InvalidParams) = ''-32602''"
  by (simp_all add: sampleCode_def intString_def decimal.simps)

lemmas search_defs = searchDeps_def searchWorld_def contentSearch_def bothSearch_def
  searchVault_def subSearch_def searchFilenames_def searchContent_def searchDirOf_def
  fileMatches_def lineMatches_def isTagSearch_def asciiLower_def asciiTrim_def isSpace_def
  sampleDeps_def sampleWorld_def schedule_def truthy_def isMcpError_def handleFsError_def
  errorMessage_def sampleCode_strings Let_def io_defs

lemma schedule_Nil: "schedule [] = (\<lambda>n. Ok)"
  by (rule ext) (simp add: schedule_def)

text \<open>
  Claim C9 as stated fails for a file that cannot be read. A content search for
  \<open>today\<close> in a vault of two notes: reading \<open>secret.md\<close> fails (EACCES), \<open>daily.md\<close>
  matches. The failure is written to the console, one result is produced, and the call
  succeeds with the message "Search completed successfully": the error is not listed
  as a warning.
\<close>

theorem per_file_read_failure_counterexample:
  "fst (searchVault searchDeps ''/vault'' ''today'' contentSearch
          (searchWorld [Ok, Fail ''EACCES''])) =
     Inr \<lparr>s_success = True, s_message = ''Search completed successfully'',
           s_results = [\<lparr>sr_file = ''daily.md'',
                          sr_matches = [\<lparr>m_line = 1, m_text = ''# Today''\<rparr>]\<rparr>],
           s_totalMatches = 1, s_matchedFiles = 1\<rparr> \<and>
   trace (snd (searchVault searchDeps ''/vault'' ''today'' contentSearch
                 (searchWorld [Ok, Fail ''EACCES'']))) =
     [EvReadFile ''/vault/secret.md'',
      EvConsoleErrorWith ''Error reading file /vault/secret.md:'' (FsError ''EACCES''),
      EvReadFile ''/vault/daily.md'']"
  by (simp add: search_defs)

text \<open>
  The theorem at work. In a search of both kinds the listing fails for the filename
  search (EIO) and succeeds for the content search: the call succeeds with the two
  results of the content search and the filename error as a warning. In a content
  search whose listing fails there is no result and the call fails. The loop over
  the two notes, when \<open>secret.md\<close> cannot be read, logs it and returns the match of
  \<open>daily.md\<close>, and so does the content search. Each sub-search throws when the
  listing fails or the directory is refused, and the filename search for \<open>daily\<close>
  returns the one name.
\<close>

lemma sample_filename_search:
  "(if so_searchType bothSearch = Filename \<or> so_searchType bothSearch = Both
    then searchFilenames searchDeps (normalizePath searchDeps ''/vault'') ''today'' bothSearch
    else io_return []) (searchWorld [Fail ''EIO'']) =
   (Inl (McpError FsFailure ''search filenames: EIO''), searchWorld [])"
  by (simp add: search_defs schedule_Nil)

lemma sample_content_search:
  "fst ((if so_searchType bothSearch = Content \<or> so_searchType bothSearch = Both
    then searchContent searchDeps (normalizePath searchDeps ''/vault'') ''today'' bothSearch
    else io_return []) (searchWorld [])) =
   Inr [\<lparr>sr_file = ''secret.md'',
          sr_matches = [\<lparr>m_line = 1, m_text = ''today is a secret''\<rparr>]\<rparr>,
        \<lparr>sr_file = ''daily.md'',
          sr_matches = [\<lparr>m_line = 1, m_text = ''# Today''\<rparr>]\<rparr>]"
  by (simp add: search_defs)

lemma sample_skipped_search:
  "(if so_searchType contentSearch = Filename \<or> so_searchType contentSearch = Both
    then searchFilenames searchDeps (normalizePath searchDeps ''/vault'') ''today'' contentSearch
    else io_return []) (searchWorld [Fail ''EIO'']) =
   (Inr [], searchWorld [Fail ''EIO''])"
  by (simp add: contentSearch_def io_return_def)

lemma sample_content_listing:
  "(if so_searchType contentSearch = Content \<or> so_searchType contentSearch = Both
    then searchContent searchDeps (normalizePath searchDeps ''/vault'') ''today'' contentSearch
    else io_return []) (searchWorld [Fail ''EIO'']) =
   (Inl (McpError FsFailure ''search content: EIO''), searchWorld [])"
  by (simp add: search_defs schedule_Nil)

theorem search_vault_warns_on_subsearch_errors_only_witness:
  "fst (searchVault searchDeps ''/vault'' ''today'' bothSearch (searchWorld [Fail ''EIO''])) =
     Inr \<lparr>s_success = True,
           s_message = ''Search completed with warnings:'' @ [CHR 0x0A] @
                       ''Filename search error: MCP error -32603: search filenames: EIO'',
           s_results = [\<lparr>sr_file = ''secret.md'',
                          sr_matches = [\<lparr>m_line = 1, m_text = ''today is a secret''\<rparr>]\<rparr>,
                        \<lparr>sr_file = ''daily.md'',
                          sr_matches = [\<lparr>m_line = 1, m_text = ''# Today''\<rparr>]\<rparr>],
           s_totalMatches = 2, s_matchedFiles = 2\<rparr> \<and>
   fst (searchVault searchDeps ''/vault'' ''today'' contentSearch (searchWorld [Fail ''EIO''])) =
     Inl (McpError InternalError
            (''Search failed:'' @ [CHR 0x0A] @
             ''Content search error: MCP error -32603: search content: EIO'')) \<and>
   isl (fst (searchVault searchDeps ''/vault'' ''today'' contentSearch (searchWorld [Fail ''EIO'']))) \<and>
   fst (searchContentFiles searchDeps ''/vault'' ''today'' contentSearch
          [''/vault/secret.md'', ''/vault/daily.md''] [] (searchWorld [Fail ''EACCES''])) =
     Inr [\<lparr>sr_file = ''daily.md'', sr_matches = [\<lparr>m_line = 1, m_text = ''# Today''\<rparr>]\<rparr>] \<and>
   trace (snd (searchContentFiles searchDeps ''/vault'' ''today'' contentSearch
          [''/vault/secret.md'', ''/vault/daily.md''] [] (searchWorld [Fail ''EACCES'']))) =
     [EvReadFile ''/vault/secret.md'',
      EvConsoleErrorWith ''Error reading file /vault/secret.md:'' (FsError ''EACCES''),
      EvReadFile ''/vault/daily.md''] \<and>
   fst (searchContent searchDeps ''/vault'' ''today'' contentSearch
          (searchWorld [Ok, Fail ''EACCES''])) =
     Inr [\<lparr>sr_file = ''daily.md'', sr_matches = [\<lparr>m_line = 1, m_text = ''# Today''\<rparr>]\<rparr>] \<and>
   fst (searchContent searchDeps ''/vault'' ''today'' contentSearch (searchWorld [Fail ''EIO''])) =
     Inl (McpError FsFailure ''search content: EIO'') \<and>
   fst (searchFilenames searchDeps ''/vault'' ''daily'' bothSearch (searchWorld [Fail ''EIO''])) =
     Inl (McpError FsFailure ''search filenames: EIO'') \<and>
   fst (searchFilenames searchDeps ''/vault'' ''daily'' bothSearch (searchWorld [])) =
     Inr [\<lparr>sr_file = ''daily.md'',
            sr_matches = [\<lparr>m_line = 0, m_text = ''Filename match: daily.md''\<rparr>]\<rparr>] \<and>
   fst (searchContent (searchDeps\<lparr>safeJoinPath := (\<lambda>base p. Inl (McpError PathEscape p))\<rparr>)
          ''/vault'' ''today''
          \<lparr>so_path = Some ''../etc'', so_caseSensitive = False, so_searchType = Content\<rparr>
          (searchWorld [])) =
     Inl (McpError PathEscape ''../etc'') \<and>
   fst (searchFilenames (searchDeps\<lparr>safeJoinPath := (\<lambda>base p. Inl (McpError PathEscape p))\<rparr>)
          ''/vault'' ''today''
          \<lparr>so_path = Some ''../etc'', so_caseSensitive = False, so_searchType = Filename\<rparr>
          (searchWorld [])) =
     Inl (McpError PathEscape ''../etc'')"
proof -
  note main = search_vault_warns_on_subsearch_errors_only
  let ?content = "if so_searchType bothSearch = Content \<or> so_searchType bothSearch = Both
    then searchContent searchDeps (normalizePath searchDeps ''/vault'') ''today'' bothSearch
    else io_return []"
  have s2: "?content (searchWorld []) =
     (Inr [\<lparr>sr_file = ''secret.md'',
            sr_matches = [\<lparr>m_line = 1, m_text = ''today is a secret''\<rparr>]\<rparr>,
          \<lparr>sr_file = ''daily.md'',
            sr_matches = [\<lparr>m_line = 1, m_text = ''# Today''\<rparr>]\<rparr>],
      snd (?content (searchWorld [])))"
    using sample_content_search by (metis prod.collapse)
  from main[THEN conjunct1, rule_format, OF conjI[OF sample_filename_search s2]]
  have a: "fst (searchVault searchDeps ''/vault'' ''today'' bothSearch (searchWorld [Fail ''EIO''])) =
     Inr \<lparr>s_success = True,
           s_message = ''Search completed with warnings:'' @ [CHR 0x0A] @
                       ''Filename search error: MCP error -32603: search filenames: EIO'',
           s_results = [\<lparr>sr_file = ''secret.md'',
                          sr_matches = [\<lparr>m_line = 1, m_text = ''today is a secret''\<rparr>]\<rparr>,
                        \<lparr>sr_file = ''daily.md'',
                          sr_matches = [\<lparr>m_line = 1, m_text = ''# Today''\<rparr>]\<rparr>],
           s_totalMatches = 2, s_matchedFiles = 2\<rparr>"
    by (simp add: isMcpError_def errorMessage_def searchDeps_def sampleDeps_def sampleCode_strings)
  from main[THEN conjunct1, rule_format, OF conjI[OF sample_skipped_search sample_content_listing]]
  have b: "fst (searchVault searchDeps ''/vault'' ''today'' contentSearch (searchWorld [Fail ''EIO''])) =
     Inl (McpError InternalError
            (''Search failed:'' @ [CHR 0x0A] @
             ''Content search error: MCP error -32603: search content: EIO''))"
    by (simp add: isMcpError_def errorMessage_def searchDeps_def sampleDeps_def sampleCode_strings)
  from main[THEN conjunct2, THEN conjunct1, rule_format,
            OF conjI[OF sample_skipped_search sample_content_listing]]
  have b': "isl (fst (searchVault searchDeps ''/vault'' ''today'' contentSearch
                        (searchWorld [Fail ''EIO''])))"
    by simp
  from main[THEN conjunct2, THEN conjunct2, THEN conjunct1,
            of searchDeps "''/vault''" "''today''" contentSearch
               "[''/vault/secret.md'', ''/vault/daily.md'']" "[]" "searchWorld [Fail ''EACCES'']"]
  have c: "fst (searchContentFiles searchDeps ''/vault'' ''today'' contentSearch
          [''/vault/secret.md'', ''/vault/daily.md''] [] (searchWorld [Fail ''EACCES''])) =
     Inr [\<lparr>sr_file = ''daily.md'', sr_matches = [\<lparr>m_line = 1, m_text = ''# Today''\<rparr>]\<rparr>]"
    and d: "trace (snd (searchContentFiles searchDeps ''/vault'' ''today'' contentSearch
          [''/vault/secret.md'', ''/vault/daily.md''] [] (searchWorld [Fail ''EACCES'']))) =
     [EvReadFile ''/vault/secret.md'',
      EvConsoleErrorWith ''Error reading file /vault/secret.md:'' (FsError ''EACCES''),
      EvReadFile ''/vault/daily.md'']"
    by (simp_all add: readAt_eq search_defs)
  have dir: "searchDirOf searchDeps ''/vault'' contentSearch = Inr ''/vault''"
    and dir': "searchDirOf searchDeps ''/vault'' bothSearch = Inr ''/vault''"
    by (simp_all add: searchDirOf_def contentSearch_def bothSearch_def truthy_def)
  have listed: "getAllMarkdownFiles searchDeps ''/vault'' ''/vault'' (searchWorld [Ok, Fail ''EACCES'']) =
      (Inr [''/vault/secret.md'', ''/vault/daily.md''],
       snd (getAllMarkdownFiles searchDeps ''/vault'' ''/vault'' (searchWorld [Ok, Fail ''EACCES''])))"
    and listed': "getAllMarkdownFiles searchDeps ''/vault'' ''/vault'' (searchWorld []) =
      (Inr [''/vault/secret.md'', ''/vault/daily.md''],
       snd (getAllMarkdownFiles searchDeps ''/vault'' ''/vault'' (searchWorld [])))"
    and failing: "getAllMarkdownFiles searchDeps ''/vault'' ''/vault'' (searchWorld [Fail ''EIO'']) =
      (Inl (FsError ''EIO''),
       snd (getAllMarkdownFiles searchDeps ''/vault'' ''/vault'' (searchWorld [Fail ''EIO''])))"
    by (simp_all add: searchDeps_def searchWorld_def sampleWorld_def schedule_def next_outcome_def)
  from main[THEN conjunct2, THEN conjunct2, THEN conjunct2, THEN conjunct1, rule_format,
            OF conjI[OF dir listed], of "''today''"]
  have f: "fst (searchContent searchDeps ''/vault'' ''today'' contentSearch
          (searchWorld [Ok, Fail ''EACCES''])) =
     Inr [\<lparr>sr_file = ''daily.md'', sr_matches = [\<lparr>m_line = 1, m_text = ''# Today''\<rparr>]\<rparr>]"
    by (simp add: search_defs)
  from main[THEN conjunct2, THEN conjunct2, THEN conjunct2, THEN conjunct2, THEN conjunct1,
            rule_format, OF conjI[OF dir failing], of "''today''"]
  have g: "fst (searchContent searchDeps ''/vault'' ''today'' contentSearch (searchWorld [Fail ''EIO''])) =
     Inl (McpError FsFailure ''search content: EIO'')"
    by (simp add: isMcpError_def handleFsError_def errorMessage_def)
  from main[THEN conjunct2, THEN conjunct2, THEN conjunct2, THEN conjunct2, THEN conjunct2,
            THEN conjunct1, rule_format, OF conjI[OF dir' failing], of "''daily''"]
  have h: "fst (searchFilenames searchDeps ''/vault'' ''daily'' bothSearch (searchWorld [Fail ''EIO''])) =
     Inl (McpError FsFailure ''search filenames: EIO'')"
    by (simp add: isMcpError_def handleFsError_def errorMessage_def)
  from main[THEN conjunct2, THEN conjunct2, THEN conjunct2, THEN conjunct2, THEN conjunct2,
            THEN conjunct2, THEN conjunct1, rule_format, OF conjI[OF dir' listed'], of "''daily''"]
  have i: "fst (searchFilenames searchDeps ''/vault'' ''daily'' bothSearch (searchWorld [])) =
     Inr [\<lparr>sr_file = ''daily.md'',
            sr_matches = [\<lparr>m_line = 0, m_text = ''Filename match: daily.md''\<rparr>]\<rparr>]"
    by (simp add: bothSearch_def searchDeps_def sampleDeps_def asciiLower_def)
  have refused: "searchDirOf (searchDeps\<lparr>safeJoinPath := (\<lambda>base p. Inl (McpError PathEscape p))\<rparr>)
          ''/vault'' \<lparr>so_path = Some ''../etc'', so_caseSensitive = False, so_searchType = t\<rparr> =
          Inl (McpError PathEscape ''../etc'')" for t
    by (simp add: searchDirOf_def truthy_def)
  from main[THEN conjunct2, THEN conjunct2, THEN conjunct2, THEN conjunct2, THEN conjunct2,
            THEN conjunct2, THEN conjunct2, THEN conjunct1, rule_format, OF refused[of Content]]
  have j: "fst (searchContent (searchDeps\<lparr>safeJoinPath := (\<lambda>base p. Inl (McpError PathEscape p))\<rparr>)
          ''/vault'' ''today''
          \<lparr>so_path = Some ''../etc'', so_caseSensitive = False, so_searchType = Content\<rparr>
          (searchWorld [])) =
     Inl (McpError PathEscape ''../etc'')"
    by (simp add: isMcpError_def)
  from main[THEN conjunct2, THEN conjunct2, THEN conjunct2, THEN conjunct2, THEN conjunct2,
            THEN conjunct2, THEN conjunct2, THEN conjunct2, rule_format, OF refused[of Filename]]
  have k: "fst (searchFilenames (searchDeps\<lparr>safeJoinPath := (\<lambda>base p. Inl (McpError PathEscape p))\<rparr>)
          ''/vault'' ''today''
          \<lparr>so_path = Some ''../etc'', so_caseSensitive = False, so_searchType = Filename\<rparr>
          (searchWorld [])) =
     Inl (McpError PathEscape ''../etc'')"
    by (simp add: isMcpError_def)
  from a b b' c d f g h i j k show ?thesis by blast
qed

section \<open>list-files: what is listed\<close>

lemma listFilesRecursive_sound:
  "p \<in> set (fst (listFilesRecursive vaultPath rel e ignored)) \<Longrightarrow>
   \<exists>names. names \<noteq> [] \<and> p = relativePathOf (rel @ names) \<and> leadsTo e names RegularFile \<and>
           (\<forall>n \<in> set names. \<not> skipped ignored n)"
proof (induction vaultPath rel e ignored arbitrary: p rule: listFilesRecursive.induct)
  case (1 vaultPath rel entries ignored)
  let ?visible = "filter (\<lambda>(name, e). \<not> skipped ignored name) entries"
  from "1.prems" have
    "p \<in> set (map (\<lambda>(name, e). relativePathOf (rel @ [name]))
                    (filter (\<lambda>(name, e). isFile e) ?visible)) \<or>
     p \<in> set (concat (map fst
               (map (\<lambda>(name, e). listFilesRecursive vaultPath (rel @ [name]) e ignored)
                    (filter (\<lambda>(name, e). isDirectory e) ?visible))))"
    by (simp add: Let_def)
  then show ?case
  proof (elim disjE)
    assume direct: "p \<in> set (map (\<lambda>(name, e). relativePathOf (rel @ [name]))
                    (filter (\<lambda>(name, e). isFile e) ?visible))"
    from direct obtain name e where m: "(name, e) \<in> set entries" and v: "\<not> skipped ignored name"
      and f: "isFile e" and p: "p = relativePathOf (rel @ [name])"
      by auto
    from m f have "leadsTo (Directory entries) [name] RegularFile"
      by (auto simp: list_ex_iff isFile_def)
    with v p show ?thesis
      by (intro exI[of _ "[name]"]) simp
  next
    assume sub: "p \<in> set (concat (map fst
               (map (\<lambda>(name, e). listFilesRecursive vaultPath (rel @ [name]) e ignored)
                    (filter (\<lambda>(name, e). isDirectory e) ?visible))))"
    then obtain name e where m: "(name, e) \<in> set entries" and v: "\<not> skipped ignored name"
      and dir: "isDirectory e"
      and p: "p \<in> set (fst (listFilesRecursive vaultPath (rel @ [name]) e ignored))"
      by auto
    from m v dir have mem: "(name, e) \<in> set (filter (\<lambda>(name, e). isDirectory e) ?visible)"
      by simp
    from "1.IH"[OF refl mem refl p]
    obtain names where n: "names \<noteq> []" "p = relativePathOf ((rel @ [name]) @ names)"
      "leadsTo e names RegularFile" "\<forall>n \<in> set names. \<not> skipped ignored n"
      by blast
    from m n(3) have "leadsTo (Directory entries) (name # names) RegularFile"
      by (auto simp: list_ex_iff)
    with n v show ?thesis
      by (intro exI[of _ "name # names"]) simp
  qed
qed simp_all


lemma listVaultFiles_sound:
  assumes "p \<in> set (listVaultFiles vaultPath tree)"
  shows "\<exists>names. names \<noteq> [] \<and> p = joinWith ''/'' names \<and> leadsTo tree names RegularFile \<and>
           (\<forall>n \<in> set names. take 1 n \<noteq> ''.'' \<and> n \<noteq> ''node_modules'' \<and> n \<noteq> ''.trash'' \<and>
                             n \<noteq> ''.obsidian'')"
proof -
  from assms have
    "p \<in> set (fst (listFilesRecursive vaultPath [] tree [''.obsidian'', ''.trash'', ''node_modules'']))"
    by (simp add: listVaultFiles_def)
  from listFilesRecursive_sound[OF this]
  obtain names where n: "names \<noteq> []" "p = relativePathOf ([] @ names)"
    "leadsTo tree names RegularFile"
    "\<forall>n \<in> set names. \<not> skipped [''.obsidian'', ''.trash'', ''node_modules''] n"
    by blast
  from n(4) have "\<forall>n \<in> set names. take 1 n \<noteq> ''.'' \<and> n \<noteq> ''node_modules'' \<and> n \<noteq> ''.trash'' \<and>
                             n \<noteq> ''.obsidian''"
    by (auto simp: skipped_def)
  with n(1,2,3) show ?thesis
    by (intro exI[of _ names]) (simp add: relativePathOf_def)
qed

lemma listVaultFiles_order_independent:
  assumes "mset completed =
             mset (fst (listFilesRecursive vaultPath [] tree [''.obsidian'', ''.trash'', ''node_modules'']))"
  shows "sort completed = listVaultFiles vaultPath tree"
  unfolding listVaultFiles_def
  by (rule properties_for_sort) (simp_all add: assms)

text \<open>
  Claim C10. Every path the list-files tool returns is the vault-relative path (the
  names from the vault root down, joined with the separator) of a regular file of the
  tree, and none of those names starts with a dot or is \<open>node_modules\<close>; in
  particular nothing below \<open>.trash\<close> or \<open>.obsidian\<close> is listed. The list is sorted
  in ascending lexicographic order of the strings. It is the same list in whatever
  order the listings of the subdirectories complete.
\<close>

theorem list_files_lists_visible_regular_files_sorted:
  "(\<forall>p \<in> set (listVaultFiles vaultPath tree).
      \<exists>names. names \<noteq> [] \<and> p = joinWith ''/'' names \<and> leadsTo tree names RegularFile \<and>
        (\<forall>n \<in> set names. take 1 n \<noteq> ''.'' \<and> n \<noteq> ''node_modules'' \<and> n \<noteq> ''.trash'' \<and>
                          n \<noteq> ''.obsidian'')) \<and>
   sorted (listVaultFiles vaultPath tree) \<and>
   (mset completed =
      mset (fst (listFilesRecursive vaultPath [] tree [''.obsidian'', ''.trash'', ''node_modules''])) \<longrightarrow>
    sort completed = listVaultFiles vaultPath tree)"
  apply (intro conjI ballI impI)
  subgoal by (rule listVaultFiles_sound)
  subgoal by (simp add: listVaultFiles_def)
  subgoal by (rule listVaultFiles_order_independent)
  done

text \<open>The listing of the sample tree, and what the theorem says of one of its paths.\<close>

lemma sample_listing:
  "listVaultFiles ''/vault'' sampleTree =
     [''Zeta.md'', ''board.canvas'', ''notes/a.md'', ''notes/b.md'']"
  by (simp add: listVaultFiles_def sampleTree_def skipped_def isFile_def isDirectory_def
        relativePathOf_def Let_def)

theorem list_files_lists_visible_regular_files_sorted_witness:
  "listVaultFiles ''/vault'' sampleTree =
     [''Zeta.md'', ''board.canvas'', ''notes/a.md'', ''notes/b.md''] \<and>
   sorted [''Zeta.md'', ''board.canvas'', ''notes/a.md'', ''notes/b.md''] \<and>
   (\<exists>names. names \<noteq> [] \<and> ''notes/a.md'' = joinWith ''/'' names \<and>
      leadsTo sampleTree names RegularFile \<and>
      (\<forall>n \<in> set names. take 1 n \<noteq> ''.'' \<and> n \<noteq> ''node_modules'' \<and> n \<noteq> ''.trash'' \<and>
                        n \<noteq> ''.obsidian''))"
proof -
  note main = list_files_lists_visible_regular_files_sorted[of "''/vault''" sampleTree]
  have m: "''notes/a.md'' \<in> set (listVaultFiles ''/vault'' sampleTree)"
    by (simp add: sample_listing)
  from main[THEN conjunct1, rule_format, OF m]
  have a: "\<exists>names. names \<noteq> [] \<and> ''notes/a.md'' = joinWith ''/'' names \<and>
      leadsTo sampleTree names RegularFile \<and>
      (\<forall>n \<in> set names. take 1 n \<noteq> ''.'' \<and> n \<noteq> ''node_modules'' \<and> n \<noteq> ''.trash'' \<and>
                        n \<noteq> ''.obsidian'')" .
  from main[THEN conjunct2, THEN conjunct1]
  have b: "sorted [''Zeta.md'', ''board.canvas'', ''notes/a.md'', ''notes/b.md'']"
    by (simp only: sample_listing)
  from a b sample_listing show ?thesis by blast
qed

end
